theory Spec2Isabelle
  imports Main
begin

section \<open>The typestringer generator\<close>

text \<open>
  A shallow embedding of \<^verbatim>\<open>generator.Generator\<close>: its configuration record, the run
  \<^verbatim>\<open>Generate\<close> and the per-package step \<^verbatim>\<open>HandlePackage\<close>.

  The world outside the generator (the file system, the buffers behind the writers, the
  standard error stream) is a state of an arbitrary type \<open>'st\<close>, threaded through every
  call that has an effect. An interface value is the record of its methods, each a
  function on that state, and the nil interface is \<open>None\<close>. A panic is an outcome of its
  own, beside the ordinary return.
\<close>

subsection \<open>Errors and panics\<close>

text \<open>
  An \<^verbatim>\<open>error\<close> value: made by \<^verbatim>\<open>errors.New\<close>, a \<^verbatim>\<open>packages.Error\<close> (kept as
  the text its \<^verbatim>\<open>Error()\<close> method gives), or the result of \<^verbatim>\<open>errors.Join\<close>. The nil
  error is \<open>None\<close> of \<open>error option\<close>.
\<close>

datatype error = New string | PackagesError string | JoinError "error list"

fun join_with :: "string \<Rightarrow> string list \<Rightarrow> string" where
  "join_with sep [] = []"
| "join_with sep [a] = a"
| "join_with sep (a # b # bs) = a @ sep @ join_with sep (b # bs)"

text \<open>\<^verbatim>\<open>err.Error()\<close>; a joined error prints its parts one per line.\<close>

fun Error :: "error \<Rightarrow> string" where
  "Error (New m) = m"
| "Error (PackagesError m) = m"
| "Error (JoinError es) = join_with ''\<newline>'' (map Error es)"

text \<open>
  \<^verbatim>\<open>errors.Join(errs...)\<close>: nil values are discarded, the result is nil when every
  value is nil, and otherwise an error wrapping the others in order.
\<close>

definition Join :: "error option list \<Rightarrow> error option" where
  "Join errs =
     (let es = List.map_filter (\<lambda>e. e) errs
      in if es = [] then None else Some (JoinError es))"

text \<open>
  The panics of a run: \<^verbatim>\<open>panic(errors.New(...))\<close> with its value, an index out of
  range (the index and the length), a call through a nil interface or function value,
  and a failed type assertion.
\<close>

datatype panic =
    PanicValue error
  | IndexOutOfRange nat nat
  | NilDereference
  | InterfaceConversion

datatype 'a outcome = Return 'a | Panic panic

subsection \<open>Writers\<close>

text \<open>
  \<^verbatim>\<open>io.Writer\<close> and \<^verbatim>\<open>io.WriteCloser\<close>. \<^verbatim>\<open>Write\<close> returns the number of bytes
  written and an error, \<^verbatim>\<open>Close\<close> an error; both may change the world.
\<close>

record 'st Writer =
  Write :: "string \<Rightarrow> 'st \<Rightarrow> (nat \<times> error option) \<times> 'st"

record 'st WriteCloser = "'st Writer" +
  Close :: "'st \<Rightarrow> error option \<times> 'st"

type_synonym 'st WriteCloserCreator =
  "string \<Rightarrow> string \<Rightarrow> 'st \<Rightarrow> ('st WriteCloser option \<times> error option) \<times> 'st"

subsection \<open>Formatted output\<close>

text \<open>
  \<^verbatim>\<open>fmt.Sprint\<close> of string operands concatenates them (a space is added only between
  operands that are not strings); \<^verbatim>\<open>fmt.Sprintln\<close> puts a space between operands and
  a newline at the end. Error operands are passed as the text of \<^verbatim>\<open>Error()\<close>.
\<close>

definition Sprint :: "string list \<Rightarrow> string" where
  "Sprint as = concat as"

definition Sprintln :: "string list \<Rightarrow> string" where
  "Sprintln as = join_with '' '' as @ ''\<newline>''"

text \<open>\<^verbatim>\<open>fmt.Fprint(w, ...)\<close> on a writer that is not nil: one \<^verbatim>\<open>Write\<close>.\<close>

definition Fprint ::
  "('st, 'm) Writer_scheme \<Rightarrow> string list \<Rightarrow> 'st \<Rightarrow> (nat \<times> error option) \<times> 'st" where
  "Fprint w as s = Write w (Sprint as) s"

text \<open>
  \<^verbatim>\<open>fmt.Fprintln(w, ...)\<close> on a writer that may be the nil interface: the call of
  \<^verbatim>\<open>Write\<close> through nil panics.
\<close>

definition Fprintln ::
  "'st Writer option \<Rightarrow> string list \<Rightarrow> 'st \<Rightarrow> (nat \<times> error option) outcome \<times> 'st" where
  "Fprintln w as s =
     (case w of
        None \<Rightarrow> (Panic NilDereference, s)
      | Some d \<Rightarrow> (case Write d (Sprintln as) s of (r, s') \<Rightarrow> (Return r, s')))"

subsection \<open>The host: what the generator calls outside its own package\<close>

text \<open>
  \<^verbatim>\<open>go/token\<close>, \<^verbatim>\<open>go/ast\<close>: the declarations of a parsed file. Only the token of a
  general declaration and the name of a type specification are read.
\<close>

datatype Token = IMPORT_tok | CONST_tok | TYPE_tok | VAR_tok

datatype Spec = ImportSpec | ValueSpec | TypeSpec string

datatype Decl = BadDecl | FuncDecl | GenDecl Token "Spec list"

record File =
  Name :: string
  Decls :: "Decl list"

text \<open>\<^verbatim>\<open>packages.Package\<close>, the fields the generator reads.\<close>

record Package =
  GoFiles :: "string list"
  Syntax :: "File list"
  Errors :: "error list"

text \<open>
  A compiled \<^verbatim>\<open>*regexp.Regexp\<close> is taken as its \<^verbatim>\<open>MatchString\<close> method.
\<close>

type_synonym Regexp = "string \<Rightarrow> bool"

definition MatchString :: "Regexp \<Rightarrow> string \<Rightarrow> bool" where
  "MatchString r tn = r tn"

text \<open>
  The functions of the standard library and of \<^verbatim>\<open>golang.org/x/tools\<close> whose results
  the generator uses, as parameters: \<^verbatim>\<open>packages.Load\<close> (with the generator's fixed
  configuration), \<^verbatim>\<open>os.Stderr\<close>, \<^verbatim>\<open>os.Create\<close>, \<^verbatim>\<open>filepath.Dir\<close>,
  \<^verbatim>\<open>filepath.Join\<close> and \<^verbatim>\<open>fmt.Sprintf\<close> on string operands.
\<close>

record 'st Host =
  packages_Load :: "string list \<Rightarrow> 'st \<Rightarrow> (Package list \<times> error option) \<times> 'st"
  os_Stderr :: "'st Writer"
  os_Create :: "string \<Rightarrow> 'st \<Rightarrow> (error + 'st WriteCloser) \<times> 'st"
  filepath_Dir :: "string \<Rightarrow> string"
  filepath_Join :: "string \<Rightarrow> string \<Rightarrow> string"
  Sprintf :: "string \<Rightarrow> string list \<Rightarrow> string"

text \<open>\<^verbatim>\<open>fmt.Fprintf(w, format, ...)\<close> on a writer that is not nil.\<close>

definition Fprintf ::
  "'st Host \<Rightarrow> ('st, 'm) Writer_scheme \<Rightarrow> string \<Rightarrow> string list \<Rightarrow> 'st
     \<Rightarrow> (nat \<times> error option) \<times> 'st" where
  "Fprintf h w format as s = Write w (Sprintf h format as) s"

subsection \<open>The configuration\<close>

record 'st Generator =
  Patterns :: "string list"
  Includes :: "Regexp list"
  Ignores :: "Regexp list"
  Format :: string
  WriteCloserCreator :: "'st WriteCloserCreator option"
  Output :: "'st WriteCloser option"
  DiagnosticOutput :: "'st Writer option"
  NoClose :: bool
  Header :: string
  Preamble :: string
  NoPackage :: bool

definition FormatReceiver :: string where
  "FormatReceiver = ''func (t %s) String() string { return \"%s\" }\<newline>''"

definition FormatFilename :: string where
  "FormatFilename = ''%s_strings.go''"

subsection \<open>\<^verbatim>\<open>defaultwg\<close>\<close>

text \<open>
  The default creator. \<^verbatim>\<open>Generate\<close> installs it after it has set the diagnostic
  writer, so it is given that writer, which is not nil.
\<close>

definition defaultwg :: "'st Host \<Rightarrow> 'st Writer \<Rightarrow> 'st WriteCloserCreator" where
  "defaultwg h d path modname s =
     (let fn = filepath_Join h path (Sprintf h FormatFilename [modname])
      in case os_Create h fn s of
           (Inl err, s1) \<Rightarrow>
             (case Fprintln (Some d) [Error err] s1 of (_, s2) \<Rightarrow> ((None, Some err), s2))
         | (Inr w, s1) \<Rightarrow>
             (case Fprintln (Some d) [''writing file:'', fn] s1 of
                (_, s2) \<Rightarrow> ((Some w, None), s2)))"

subsection \<open>\<^verbatim>\<open>HandlePackage\<close>\<close>

text \<open>
  The two loops over a list of patterns (\<^verbatim>\<open>for _, r := range g.Ignores\<close> and
  \<^verbatim>\<open>for _, r := range g.Includes\<close>) stop at the first pattern that matches.
\<close>

fun matches_any :: "Regexp list \<Rightarrow> string \<Rightarrow> bool" where
  "matches_any [] tn = False"
| "matches_any (r # rs) tn = (if MatchString r tn then True else matches_any rs tn)"

text \<open>
  The loop over the specifications of one type declaration. The type assertion
  \<^verbatim>\<open>sp.(*ast.TypeSpec)\<close> has no \<^verbatim>\<open>ok\<close> result, so it panics on another kind.
\<close>

fun specs_loop ::
  "'st Generator \<Rightarrow> Spec list \<Rightarrow> string list \<Rightarrow> 'st \<Rightarrow> string list outcome \<times> 'st" where
  "specs_loop g [] typenames s = (Return typenames, s)"
| "specs_loop g (sp # sps) typenames s =
     (case sp of
        TypeSpec tn \<Rightarrow>
          if matches_any (Ignores g) tn then
            (case Fprintln (DiagnosticOutput g) [''ignoring:'', tn] s of
               (Panic x, s') \<Rightarrow> (Panic x, s')
             | (Return _, s') \<Rightarrow> specs_loop g sps typenames s')
          else if length (Includes g) > 0 \<and> \<not> matches_any (Includes g) tn then
            (case Fprintln (DiagnosticOutput g) [''not included:'', tn] s of
               (Panic x, s') \<Rightarrow> (Panic x, s')
             | (Return _, s') \<Rightarrow> specs_loop g sps typenames s')
          else
            (case Fprintln (DiagnosticOutput g) [''including:'', tn] s of
               (Panic x, s') \<Rightarrow> (Panic x, s')
             | (Return _, s') \<Rightarrow> specs_loop g sps (typenames @ [tn]) s')
      | _ \<Rightarrow> (Panic InterfaceConversion, s))"

text \<open>The loop over the declarations of one file.\<close>

fun decls_loop ::
  "'st Generator \<Rightarrow> Decl list \<Rightarrow> string list \<Rightarrow> 'st \<Rightarrow> string list outcome \<times> 'st" where
  "decls_loop g [] typenames s = (Return typenames, s)"
| "decls_loop g (decl # decls) typenames s =
     (case decl of
        GenDecl tok specs \<Rightarrow>
          if tok \<noteq> TYPE_tok then decls_loop g decls typenames s
          else
            (case specs_loop g specs typenames s of
               (Panic x, s') \<Rightarrow> (Panic x, s')
             | (Return typenames', s') \<Rightarrow> decls_loop g decls typenames' s')
      | _ \<Rightarrow> decls_loop g decls typenames s)"

text \<open>The loop over the files of the package, \<^verbatim>\<open>for _, a := range p.Syntax\<close>.\<close>

fun files_loop ::
  "'st Generator \<Rightarrow> File list \<Rightarrow> string \<Rightarrow> string list \<Rightarrow> 'st
     \<Rightarrow> (string \<times> string list) outcome \<times> 'st" where
  "files_loop g [] packagename typenames s = (Return (packagename, typenames), s)"
| "files_loop g (a # as) packagename typenames s =
     (case decls_loop g (Decls a) typenames s of
        (Panic x, s') \<Rightarrow> (Panic x, s')
      | (Return typenames', s') \<Rightarrow> files_loop g as (Name a) typenames' s')"

text \<open>The loop that writes one line for each type name; the results of the writes are dropped.\<close>

fun stubs_loop ::
  "'st Host \<Rightarrow> 'st Generator \<Rightarrow> 'st WriteCloser \<Rightarrow> string list \<Rightarrow> 'st \<Rightarrow> 'st" where
  "stubs_loop h g w [] s = s"
| "stubs_loop h g w (tn # tns) s =
     stubs_loop h g w tns (snd (Fprintf h w (Format g) [tn, tn] s))"

text \<open>
  The statements after the writer is known: header, package clause, preamble, the stubs
  and the close. None of them reads what \<^verbatim>\<open>Fprint\<close>, \<^verbatim>\<open>Fprintf\<close> or \<^verbatim>\<open>Close\<close>
  returns.
\<close>

definition emit ::
  "'st Host \<Rightarrow> 'st Generator \<Rightarrow> 'st WriteCloser \<Rightarrow> string \<Rightarrow> string list \<Rightarrow> 'st \<Rightarrow> 'st" where
  "emit h g w packagename typenames s0 =
     (let s1 = (if length (Header g) > 0 then snd (Fprint w [Header g] s0) else s0);
          s2 = (if \<not> NoPackage g
                then snd (Fprintf h w ''package %s\<newline>\<newline>'' [packagename] s1) else s1);
          s3 = (if length (Preamble g) > 0
                then snd (Fprint w [Preamble g, ''\<newline>\<newline>''] s2) else s2);
          s4 = stubs_loop h g w typenames s3
      in if \<not> NoClose g then snd (Close w s4) else s4)"

definition HandlePackage ::
  "'st Host \<Rightarrow> 'st Generator \<Rightarrow> Package \<Rightarrow> 'st \<Rightarrow> error option outcome \<times> 'st" where
  "HandlePackage h g p s0 =
     (if length (GoFiles p) = 0 then (Return (Some (New ''no Go files in package'')), s0)
      else
        case files_loop g (Syntax p) [] [] s0 of
          (Panic x, s1) \<Rightarrow> (Panic x, s1)
        | (Return (packagename, typenames), s1) \<Rightarrow>
            (case Output g of
               Some w \<Rightarrow> (Return None, emit h g w packagename typenames s1)
             | None \<Rightarrow>
                 (case WriteCloserCreator g of
                    None \<Rightarrow> (Panic NilDereference, s1)
                  | Some creator \<Rightarrow>
                      (case creator (filepath_Dir h (GoFiles p ! 0)) packagename s1 of
                         ((_, Some err), s2) \<Rightarrow> (Return (Some err), s2)
                       | ((None, None), s2) \<Rightarrow>
                           (Panic (PanicValue (New ''nil WriteCloser'')), s2)
                       | ((Some w, None), s2) \<Rightarrow>
                           (Return None, emit h g w packagename typenames s2)))))"

subsection \<open>\<^verbatim>\<open>Generate\<close>\<close>

text \<open>The loop over the diagnostics of a package that has some.\<close>

fun errors_loop ::
  "'st Generator \<Rightarrow> error list \<Rightarrow> error option \<Rightarrow> 'st \<Rightarrow> error option outcome \<times> 'st" where
  "errors_loop g [] reterr s = (Return reterr, s)"
| "errors_loop g (err # errs) reterr s =
     (let reterr' = Join [reterr, Some err]
      in case Fprintln (DiagnosticOutput g) [Error err] s of
           (Panic x, s') \<Rightarrow> (Panic x, s')
         | (Return _, s') \<Rightarrow> errors_loop g errs reterr' s')"

text \<open>
  The loop \<^verbatim>\<open>for i, p := range ps\<close>. The operand \<^verbatim>\<open>g.Patterns[i]\<close> is evaluated
  before the line is printed, and panics when \<open>i\<close> is not an index of the patterns.
\<close>

fun packages_loop ::
  "'st Host \<Rightarrow> 'st Generator \<Rightarrow> nat \<Rightarrow> Package list \<Rightarrow> error option \<Rightarrow> 'st
     \<Rightarrow> error option outcome \<times> 'st" where
  "packages_loop h g i [] reterr s = (Return reterr, s)"
| "packages_loop h g i (p # ps) reterr s =
     (if \<not> i < length (Patterns g) then (Panic (IndexOutOfRange i (length (Patterns g))), s)
      else
        case Fprintln (DiagnosticOutput g) [''package with pattern'', Patterns g ! i] s of
          (Panic x, s1) \<Rightarrow> (Panic x, s1)
        | (Return _, s1) \<Rightarrow>
            if length (Errors p) > 0 then
              (case Fprintln (DiagnosticOutput g)
                      [''found package errors, not continuing''] s1 of
                 (Panic x, s2) \<Rightarrow> (Panic x, s2)
               | (Return _, s2) \<Rightarrow>
                   (case errors_loop g (Errors p) reterr s2 of
                      (Panic x, s3) \<Rightarrow> (Panic x, s3)
                    | (Return reterr', s3) \<Rightarrow> packages_loop h g (Suc i) ps reterr' s3))
            else
              (case HandlePackage h g p s1 of
                 (Panic x, s2) \<Rightarrow> (Panic x, s2)
               | (Return None, s2) \<Rightarrow> packages_loop h g (Suc i) ps reterr s2
               | (Return (Some err), s2) \<Rightarrow>
                   (case Fprintln (DiagnosticOutput g) [''generate error:'', Error err] s2 of
                      (Panic x, s3) \<Rightarrow> (Panic x, s3)
                    | (Return _, s3) \<Rightarrow>
                        packages_loop h g (Suc i) ps (Join [reterr, Some err]) s3)))"

text \<open>The two defaults that \<^verbatim>\<open>Generate\<close> stores in the configuration first.\<close>

definition with_defaults :: "'st Host \<Rightarrow> 'st Generator \<Rightarrow> 'st Generator" where
  "with_defaults h g =
     (let d = (case DiagnosticOutput g of None \<Rightarrow> os_Stderr h | Some d \<Rightarrow> d);
          c = (case WriteCloserCreator g of None \<Rightarrow> defaultwg h d | Some c \<Rightarrow> c)
      in g\<lparr>DiagnosticOutput := Some d, WriteCloserCreator := Some c\<rparr>)"

definition Generate ::
  "'st Host \<Rightarrow> 'st Generator \<Rightarrow> 'st \<Rightarrow> error option outcome \<times> 'st" where
  "Generate h g0 s0 =
     (let g = with_defaults h g0
      in case packages_Load h (Patterns g) s0 of
           ((ps, Some err), s1) \<Rightarrow> (Return (Some err), s1)
         | ((ps, None), s1) \<Rightarrow>
             if length ps = 0 then
               (case Fprintln (DiagnosticOutput g) [''no packages loaded''] s1 of
                  (Panic x, s2) \<Rightarrow> (Panic x, s2)
                | (Return _, s2) \<Rightarrow> (Return (Some (New ''no packages loaded'')), s2))
             else packages_loop h g 0 ps None s1)"

subsection \<open>The specification's vocabulary\<close>

text \<open>
  The definitions of this subsection follow the words of the specification, for
  comparison with the code above.

  One diagnostic line, and a sequence of writes to one writer, each on the state the
  one before left, whatever it returned.
\<close>

definition write_all :: "('st, 'm) Writer_scheme \<Rightarrow> string list \<Rightarrow> 'st \<Rightarrow> 'st" where
  "write_all w chunks s = foldl (\<lambda>s c. snd (Write w c s)) s chunks"

definition closing :: "'st Generator \<Rightarrow> 'st WriteCloser \<Rightarrow> 'st \<Rightarrow> 'st" where
  "closing g w s = (if NoClose g then s else snd (Close w s))"

text \<open>
  The Pattern Matcher's contract \<open>included(name, includes, ignores)\<close>: false when an
  ignore pattern matches; else, with a non-empty include list, true iff an include
  pattern matches; with an empty include list, true.
\<close>

definition included :: "string \<Rightarrow> Regexp list \<Rightarrow> Regexp list \<Rightarrow> bool" where
  "included name includes ignores =
     (if \<exists>r\<in>set ignores. MatchString r name then False
      else if includes \<noteq> [] then \<exists>r\<in>set includes. MatchString r name
      else True)"

text \<open>
  The type names of a package in traversal order: the files in the order of the list,
  the declarations of a file in source order, type declarations only, and each
  specification of a type declaration.
\<close>

fun spec_names :: "Spec list \<Rightarrow> string list" where
  "spec_names [] = []"
| "spec_names (TypeSpec tn # sps) = tn # spec_names sps"
| "spec_names (_ # sps) = spec_names sps"

fun decl_names :: "Decl \<Rightarrow> string list" where
  "decl_names (GenDecl TYPE_tok sps) = spec_names sps"
| "decl_names _ = []"

definition type_names :: "File list \<Rightarrow> string list" where
  "type_names fs = concat (map (\<lambda>a. concat (map decl_names (Decls a))) fs)"

text \<open>
  What \<^verbatim>\<open>go/ast\<close> promises of a parsed file: the specifications of a declaration with
  the token \<^verbatim>\<open>TYPE\<close> are type specifications.
\<close>

fun is_TypeSpec :: "Spec \<Rightarrow> bool" where
  "is_TypeSpec (TypeSpec tn) = True"
| "is_TypeSpec _ = False"

fun type_decl_ok :: "Decl \<Rightarrow> bool" where
  "type_decl_ok (GenDecl TYPE_tok sps) = list_all is_TypeSpec sps"
| "type_decl_ok _ = True"

definition well_formed :: "File list \<Rightarrow> bool" where
  "well_formed fs = list_all (\<lambda>a. list_all type_decl_ok (Decls a)) fs"

text \<open>The diagnostic line of the decision on one name.\<close>

definition verdict :: "'st Generator \<Rightarrow> string \<Rightarrow> string" where
  "verdict g tn =
     (if \<exists>r\<in>set (Ignores g). MatchString r tn then Sprintln [''ignoring:'', tn]
      else if included tn (Includes g) (Ignores g) then Sprintln [''including:'', tn]
      else Sprintln [''not included:'', tn])"

text \<open>The names that pass the filter, and the state after the diagnostics of the walk.\<close>

definition accepted :: "'st Generator \<Rightarrow> File list \<Rightarrow> string list" where
  "accepted g fs = filter (\<lambda>tn. included tn (Includes g) (Ignores g)) (type_names fs)"

definition narrated :: "'st Generator \<Rightarrow> 'st Writer \<Rightarrow> File list \<Rightarrow> 'st \<Rightarrow> 'st" where
  "narrated g d fs s = write_all d (map (verdict g) (type_names fs)) s"

text \<open>
  The package name: what the last file of the list declares (the empty string, the zero
  value, when there is no file).
\<close>

definition package_name :: "File list \<Rightarrow> string" where
  "package_name fs = (if fs = [] then [] else Name (last fs))"

text \<open>The diagnostics stream: the configured writer, standard error by default.\<close>

definition diagnostics :: "'st Host \<Rightarrow> 'st Generator \<Rightarrow> 'st Writer" where
  "diagnostics h g = (case DiagnosticOutput g of None \<Rightarrow> os_Stderr h | Some d \<Rightarrow> d)"

text \<open>
  The Output Artifact of one package: header, package clause, preamble and the stub
  lines, each part as one write.
\<close>

definition stub :: "'st Host \<Rightarrow> 'st Generator \<Rightarrow> string \<Rightarrow> string" where
  "stub h g tn = Sprintf h (Format g) [tn, tn]"

definition artifact :: "'st Host \<Rightarrow> 'st Generator \<Rightarrow> string \<Rightarrow> string list \<Rightarrow> string list" where
  "artifact h g packagename typenames =
     (if Header g = [] then [] else [Header g])
     @ (if NoPackage g then [] else [Sprintf h ''package %s\<newline>\<newline>'' [packagename]])
     @ (if Preamble g = [] then [] else [Preamble g @ ''\<newline>\<newline>''])
     @ map (stub h g) typenames"

text \<open>
  The Orchestrator's \<open>PerPackage\<close> state: each package is announced with its pattern;
  one with load diagnostics records them and goes straight to the next package; an
  error of the package's own processing is recorded and the next package follows; a
  panic halts. The result is the list of the errors recorded, in order, and the state.
\<close>

fun PerPackage ::
  "'st Host \<Rightarrow> 'st Generator \<Rightarrow> 'st Writer \<Rightarrow> (string \<times> Package) list \<Rightarrow> 'st
     \<Rightarrow> error list \<times> 'st" where
  "PerPackage h g d [] s = ([], s)"
| "PerPackage h g d ((pattern, p) # rest) s =
     (let s1 = write_all d [Sprintln [''package with pattern'', pattern]] s
      in if Errors p \<noteq> [] then
           (case PerPackage h g d rest
                   (write_all d (Sprintln [''found package errors, not continuing'']
                                 # map (\<lambda>e. Sprintln [Error e]) (Errors p)) s1) of
              (es, s') \<Rightarrow> (Errors p @ es, s'))
         else
           (case HandlePackage h g p s1 of
              (Return None, s2) \<Rightarrow> PerPackage h g d rest s2
            | (Return (Some e), s2) \<Rightarrow>
                (case PerPackage h g d rest
                        (write_all d [Sprintln [''generate error:'', Error e]] s2) of
                   (es, s') \<Rightarrow> (e # es, s'))
            | (Panic x, s2) \<Rightarrow> ([], s2)))"

text \<open>The aggregated error: the recorded errors joined one after the other.\<close>

definition joined :: "error option \<Rightarrow> error list \<Rightarrow> error option" where
  "joined reterr es = foldl (\<lambda>acc e. Join [acc, Some e]) reterr es"

text \<open>An error and every error wrapped in it, as \<^verbatim>\<open>errors.Is\<close> visits them.\<close>

fun parts :: "error \<Rightarrow> error list" where
  "parts (New m) = [New m]"
| "parts (PackagesError m) = [PackagesError m]"
| "parts (JoinError es) = JoinError es # concat (map parts es)"

text \<open>The creator's contract: never a nil writer together with a nil error.\<close>

definition honours_contract :: "'st WriteCloserCreator \<Rightarrow> bool" where
  "honours_contract c = (\<forall>path modname s. fst (c path modname s) \<noteq> (None, None))"

subsection \<open>A concrete world for running the model\<close>

text \<open>
  The world of the repository's tests: the standard error stream, the buffer and the
  history of the tests' \<^verbatim>\<open>MultiBuffer\<close>, and, to observe calls, the arguments of
  every creator call, what a failing writer was asked to write and how often it was
  closed.
\<close>

record world =
  stderr :: string
  buffer :: string
  history :: "string list"
  calls :: "(string \<times> string) list"
  rejected :: "string list"
  closes :: nat

definition world0 :: world where
  "world0 = \<lparr>stderr = [], buffer = [], history = [], calls = [], rejected = [], closes = 0\<rparr>"

definition Stderr :: "world Writer" where
  "Stderr = \<lparr>Write = (\<lambda>p s. ((length p, None), s\<lparr>stderr := stderr s @ p\<rparr>))\<rparr>"

text \<open>\<^verbatim>\<open>MultiBuffer\<close> of the tests: \<^verbatim>\<open>Close\<close> moves the buffer to the history.\<close>

definition MultiBuffer :: "world WriteCloser" where
  "MultiBuffer =
     \<lparr>Write = (\<lambda>p s. ((length p, None), s\<lparr>buffer := buffer s @ p\<rparr>)),
      Close = (\<lambda>s. (None, s\<lparr>history := history s @ [buffer s], buffer := []\<rparr>))\<rparr>"

text \<open>A writer whose every \<^verbatim>\<open>Write\<close> and \<^verbatim>\<open>Close\<close> fails.\<close>

definition FailingWriter :: "world WriteCloser" where
  "FailingWriter =
     \<lparr>Write = (\<lambda>p s. ((0, Some (New ''write failed'')), s\<lparr>rejected := rejected s @ [p]\<rparr>)),
      Close = (\<lambda>s. (Some (New ''close failed''), s\<lparr>closes := Suc (closes s)\<rparr>))\<rparr>"

text \<open>The creator of the tests, one that breaks the contract, and one that fails.\<close>

definition test_creator :: "world WriteCloserCreator" where
  "test_creator path modname s =
     ((Some MultiBuffer, None), s\<lparr>calls := calls s @ [(path, modname)]\<rparr>)"

definition broken_creator :: "world WriteCloserCreator" where
  "broken_creator path modname s = ((None, None), s\<lparr>calls := calls s @ [(path, modname)]\<rparr>)"

definition failing_creator :: "world WriteCloserCreator" where
  "failing_creator path modname s =
     ((None, Some (New ''permission denied'')), s\<lparr>calls := calls s @ [(path, modname)]\<rparr>)"

text \<open>A creator whose writer fails at every write and at the close.\<close>

definition failing_sink_creator :: "world WriteCloserCreator" where
  "failing_sink_creator path modname s =
     ((Some FailingWriter, None), s\<lparr>calls := calls s @ [(path, modname)]\<rparr>)"

text \<open>
  A formatter for the runs below, which agrees with \<^verbatim>\<open>fmt.Sprintf\<close> on formats whose
  only verbs are \<^verbatim>\<open>%s\<close>, as many as there are operands: each \<^verbatim>\<open>%s\<close> is replaced
  by the next operand and every other character is copied. (It does not report surplus
  operands and knows no other verb.)
\<close>

fun verbs :: "string \<Rightarrow> string list \<Rightarrow> string" where
  "verbs [] as = []"
| "verbs [c] as = [c]"
| "verbs (c # v # fs) as =
     (if c = CHR ''%'' \<and> v = CHR ''s'' then
        (case as of [] \<Rightarrow> ''%!s(MISSING)'' @ verbs fs [] | a # as' \<Rightarrow> a @ verbs fs as')
      else c # verbs (v # fs) as)"

text \<open>
  The directory of a path \<open>dir/file\<close> with a clean \<open>dir\<close>, where it agrees with
  \<^verbatim>\<open>filepath.Dir\<close>.
\<close>

definition dir_of :: "string \<Rightarrow> string" where
  "dir_of path = rev (drop 1 (dropWhile (\<lambda>c. c \<noteq> CHR ''/'') (rev path)))"

text \<open>A host whose loader answers with the given packages.\<close>

definition test_host :: "Package list \<Rightarrow> world Host" where
  "test_host ps =
     \<lparr>packages_Load = (\<lambda>patterns s. ((ps, None), s)),
      os_Stderr = Stderr,
      os_Create = (\<lambda>fn s. (Inl (New ''read-only file system''), s)),
      filepath_Dir = dir_of,
      filepath_Join = (\<lambda>a b. a @ ''/'' @ b),
      Sprintf = verbs\<rparr>"

text \<open>A host whose loader fails.\<close>

definition failing_host :: "world Host" where
  "failing_host =
     (test_host [])\<lparr>packages_Load := (\<lambda>patterns s. (([], Some (New ''malformed pattern'')), s))\<rparr>"

text \<open>
  Stand-ins for compiled patterns: an unanchored pattern of plain characters searches
  for them, and one anchored at both ends compares.
\<close>

fun contains :: "string \<Rightarrow> Regexp" where
  "contains sub [] = (sub = [])"
| "contains sub (c # cs) = (take (length sub) (c # cs) = sub \<or> contains sub cs)"

definition exactly :: "string \<Rightarrow> Regexp" where
  "exactly str tn = (tn = str)"

text \<open>The packages of the tests, by the names the tests expect, and two damaged ones.\<close>

definition pkg_one :: Package where
  "pkg_one =
     \<lparr>GoFiles = [''testdata/one/one.go''],
      Syntax = [\<lparr>Name = ''one'',
                 Decls = [GenDecl IMPORT_tok [ImportSpec],
                          GenDecl TYPE_tok [TypeSpec ''Int''],
                          FuncDecl,
                          GenDecl TYPE_tok [TypeSpec ''String'', TypeSpec ''Struct'']]\<rparr>],
      Errors = []\<rparr>"

definition pkg_two :: Package where
  "pkg_two =
     \<lparr>GoFiles = [''testdata/two/two1.go'', ''testdata/two/two2.go''],
      Syntax = [\<lparr>Name = ''two'', Decls = [GenDecl TYPE_tok [TypeSpec ''FIRST'']]\<rparr>,
                \<lparr>Name = ''two'', Decls = [GenDecl TYPE_tok [TypeSpec ''SECOND'']]\<rparr>],
      Errors = []\<rparr>"

definition pkg_threeone :: Package where
  "pkg_threeone =
     \<lparr>GoFiles = [''testdata/three/threeone/threeone.go''],
      Syntax = [\<lparr>Name = ''threeone'', Decls = [GenDecl TYPE_tok [TypeSpec ''THREEONE'']]\<rparr>],
      Errors = []\<rparr>"

definition pkg_threetwo :: Package where
  "pkg_threetwo =
     \<lparr>GoFiles = [''testdata/three/threetwo/threetwo.go''],
      Syntax = [\<lparr>Name = ''threetwo'', Decls = [GenDecl TYPE_tok [TypeSpec ''THREETWO'']]\<rparr>],
      Errors = []\<rparr>"

definition pkg_disagreeing :: Package where
  "pkg_disagreeing =
     \<lparr>GoFiles = [''mixed/a.go'', ''mixed/b.go''],
      Syntax = [\<lparr>Name = ''alpha'', Decls = [GenDecl TYPE_tok [TypeSpec ''A'']]\<rparr>,
                \<lparr>Name = ''beta'', Decls = [GenDecl TYPE_tok [TypeSpec ''B'']]\<rparr>],
      Errors = []\<rparr>"

definition pkg_unparsed :: Package where
  "pkg_unparsed =
     \<lparr>GoFiles = [''bad/bad.go''],
      Syntax = [],
      Errors = [PackagesError ''bad/bad.go:1:1: expected package, found EOF'']\<rparr>"

definition pkg_no_files :: Package where
  "pkg_no_files = \<lparr>GoFiles = [], Syntax = [], Errors = []\<rparr>"

text \<open>The configuration of \<^verbatim>\<open>TestThree\<close> with a creator of choice.\<close>

definition config :: "string list \<Rightarrow> world WriteCloserCreator \<Rightarrow> world Generator" where
  "config patterns creator =
     \<lparr>Patterns = patterns, Includes = [], Ignores = [], Format = ''%s,%s\<newline>'',
      WriteCloserCreator = Some creator, Output = None, DiagnosticOutput = None,
      NoClose = False, Header = [], Preamble = [], NoPackage = False\<rparr>"

text \<open>The configuration of \<^verbatim>\<open>TestOne\<close>.\<close>

definition config_one :: "world Generator" where
  "config_one =
     (config [''./testdata/one''] test_creator)
       \<lparr>Header := ''// the header\<newline>'',
        Preamble := ''import (\<newline>    \"fmt\"\<newline>    \"os\"\<newline>)''\<rparr>"

section \<open>Properties\<close>


subsection \<open>The loops of \<^verbatim>\<open>HandlePackage\<close>\<close>

lemma matches_any_iff: "matches_any rs tn \<longleftrightarrow> (\<exists>r\<in>set rs. MatchString r tn)"
  by (induction rs) auto

lemma write_all_append: "write_all w (xs @ ys) s = write_all w ys (write_all w xs s)"
  by (simp add: write_all_def)

lemma write_all_Nil: "write_all w [] s = s"
  by (simp add: write_all_def)

lemma write_all_Cons: "write_all w (c # cs) s = write_all w cs (snd (Write w c s))"
  by (simp add: write_all_def)

lemma Fprintln_Some:
  "Fprintln (Some d) as s = (Return (fst (Write d (Sprintln as) s)), write_all d [Sprintln as] s)"
  by (simp add: Fprintln_def write_all_def split: prod.splits)

lemma is_TypeSpecE: "is_TypeSpec sp \<Longrightarrow> \<exists>tn. sp = TypeSpec tn"
  by (cases sp) auto

lemma specs_loop_total:
  assumes "DiagnosticOutput g = Some d" and "list_all is_TypeSpec sps"
  shows "specs_loop g sps tns s =
    (Return (tns @ filter (\<lambda>tn. included tn (Includes g) (Ignores g)) (spec_names sps)),
     write_all d (map (verdict g) (spec_names sps)) s)"
  using assms
proof (induction sps arbitrary: tns s)
  case Nil
  then show ?case by (simp add: write_all_Nil)
next
  case (Cons sp sps)
  have "is_TypeSpec sp" and rest: "list_all is_TypeSpec sps" using Cons.prems by simp_all
  then obtain tn where sp: "sp = TypeSpec tn" using is_TypeSpecE by blast
  note IH = Cons.IH [OF Cons.prems(1) rest]
  show ?case
    by (simp add: sp IH Fprintln_Some Cons.prems(1) matches_any_iff included_def verdict_def
          write_all_Cons write_all_Nil)
qed

lemma decls_loop_total:
  assumes "DiagnosticOutput g = Some d" and "list_all type_decl_ok decls"
  shows "decls_loop g decls tns s =
    (Return (tns @ filter (\<lambda>tn. included tn (Includes g) (Ignores g))
                     (concat (map decl_names decls))),
     write_all d (map (verdict g) (concat (map decl_names decls))) s)"
  using assms
proof (induction decls arbitrary: tns s)
  case Nil
  then show ?case by (simp add: write_all_Nil)
next
  case (Cons decl decls)
  have rest: "list_all type_decl_ok decls" using Cons.prems by simp
  note IH = Cons.IH [OF Cons.prems(1) rest]
  show ?case
  proof (cases decl)
    case (GenDecl tok sps)
    show ?thesis
    proof (cases "tok = TYPE_tok")
      case True
      then have "list_all is_TypeSpec sps" using Cons.prems GenDecl by simp
      from specs_loop_total [OF Cons.prems(1) this]
      show ?thesis by (simp add: GenDecl True IH write_all_append)
    next
      case False
      then have "decl_names (GenDecl tok sps) = []" by (cases tok) auto
      then show ?thesis using False by (simp add: GenDecl IH)
    qed
  qed (simp_all add: IH)
qed

lemma files_loop_walk:
  assumes "DiagnosticOutput g = Some d" and "well_formed fs"
  shows "files_loop g fs pn tns s =
    (Return (if fs = [] then pn else Name (last fs), tns @ accepted g fs), narrated g d fs s)"
  using assms
proof (induction fs arbitrary: pn tns s)
  case Nil
  then show ?case by (simp add: accepted_def narrated_def type_names_def write_all_Nil)
next
  case (Cons a fs)
  have here: "list_all type_decl_ok (Decls a)" and rest: "well_formed fs"
    using Cons.prems by (simp_all add: well_formed_def)
  note IH = Cons.IH [OF Cons.prems(1) rest]
  from decls_loop_total [OF Cons.prems(1) here]
  show ?case
    by (simp add: IH accepted_def narrated_def type_names_def write_all_append)
qed

lemma files_loop_package:
  assumes "DiagnosticOutput g = Some d" and "well_formed (Syntax p)"
  shows "files_loop g (Syntax p) [] [] s =
    (Return (package_name (Syntax p), accepted g (Syntax p)), narrated g d (Syntax p) s)"
  using files_loop_walk [OF assms, of "[]" "[]" s] by (simp add: package_name_def)

lemma stubs_loop_writes: "stubs_loop h g w tns s = write_all w (map (stub h g) tns) s"
  by (induction tns arbitrary: s) (simp_all add: write_all_Nil write_all_Cons Fprintf_def stub_def)

lemma emit_writes: "emit h g w pn tns s = closing g w (write_all w (artifact h g pn tns) s)"
  by (simp add: emit_def artifact_def closing_def stubs_loop_writes write_all_append
        write_all_Cons write_all_Nil Fprint_def Fprintf_def Sprint_def Let_def)

lemma HandlePackage_Output:
  assumes "GoFiles p \<noteq> []" and "Output g = Some w"
    and "files_loop g (Syntax p) [] [] s = (Return (pn, tns), s1)"
  shows "HandlePackage h g p s = (Return None, emit h g w pn tns s1)"
  using assms by (simp add: HandlePackage_def)

lemma HandlePackage_creator:
  assumes "GoFiles p \<noteq> []" and "Output g = None" and "WriteCloserCreator g = Some c"
    and "files_loop g (Syntax p) [] [] s = (Return (pn, tns), s1)"
    and "c (filepath_Dir h (GoFiles p ! 0)) pn s1 = (r, s2)"
  shows "HandlePackage h g p s =
    (case r of
       (_, Some err) \<Rightarrow> (Return (Some err), s2)
     | (None, None) \<Rightarrow> (Panic (PanicValue (New ''nil WriteCloser'')), s2)
     | (Some w, None) \<Rightarrow> (Return None, emit h g w pn tns s2))"
  using assms by (simp add: HandlePackage_def split: prod.splits option.splits)

lemma HandlePackage_returns:
  assumes d: "DiagnosticOutput g = Some d" and wf: "well_formed (Syntax p)"
    and sink: "Output g \<noteq> None \<or> (\<exists>c. WriteCloserCreator g = Some c \<and> honours_contract c)"
  shows "\<exists>r s'. HandlePackage h g p s = (Return r, s')"
proof (cases "GoFiles p = []")
  case True
  then show ?thesis by (simp add: HandlePackage_def)
next
  case False
  note walk = files_loop_package [OF d wf, of s]
  show ?thesis
  proof (cases "Output g")
    case (Some w)
    from HandlePackage_Output [OF False Some walk] show ?thesis by blast
  next
    case None
    with sink obtain c where c: "WriteCloserCreator g = Some c" and hc: "honours_contract c"
      by auto
    obtain r s2 where call:
      "c (filepath_Dir h (GoFiles p ! 0)) (package_name (Syntax p)) (narrated g d (Syntax p) s)
         = (r, s2)"
      by (cases "c (filepath_Dir h (GoFiles p ! 0)) (package_name (Syntax p))
                   (narrated g d (Syntax p) s)") auto
    have "r \<noteq> (None, None)"
      using hc call unfolding honours_contract_def by (metis fst_conv)
    then show ?thesis
      using HandlePackage_creator [OF False None c walk call]
      by (auto split: prod.splits option.splits)
  qed
qed


subsection \<open>Joining errors\<close>

lemma Join_pair: "Join [acc, Some e] = Some (JoinError (case acc of None \<Rightarrow> [e] | Some a \<Rightarrow> [a, e]))"
  by (simp add: Join_def List.map_filter_def split: option.splits)

lemma joined_Nil: "joined acc [] = acc"
  by (simp add: joined_def)

lemma joined_Cons: "joined acc (e # es) = joined (Join [acc, Some e]) es"
  by (simp add: joined_def)

lemma joined_append: "joined acc (xs @ ys) = joined (joined acc xs) ys"
  by (simp add: joined_def)

lemma joined_None_iff: "joined acc es = None \<longleftrightarrow> acc = None \<and> es = []"
  by (induction es arbitrary: acc) (simp_all add: joined_Nil joined_Cons Join_pair)

lemma parts_self: "e \<in> set (parts e)"
  by (cases e) simp_all

lemma joined_keeps:
  "x \<in> set (parts a0) \<Longrightarrow> \<exists>a. joined (Some a0) es = Some a \<and> x \<in> set (parts a)"
proof (induction es arbitrary: a0)
  case Nil
  then show ?case by (simp add: joined_Nil)
next
  case (Cons e es)
  have "x \<in> set (parts (JoinError [a0, e]))" using Cons.prems by simp
  from Cons.IH [OF this] show ?case by (simp add: joined_Cons Join_pair)
qed

lemma joined_has:
  "e \<in> set es \<Longrightarrow> \<exists>a. joined acc es = Some a \<and> e \<in> set (parts a)"
proof (induction es arbitrary: acc)
  case Nil
  then show ?case by simp
next
  case (Cons e' es)
  show ?case
  proof (cases "e = e'")
    case True
    have "e \<in> set (parts (JoinError (case acc of None \<Rightarrow> [e] | Some a \<Rightarrow> [a, e])))"
      using parts_self [of e] by (simp split: option.splits)
    from joined_keeps [OF this, of es] show ?thesis
      unfolding True [symmetric] by (simp add: joined_Cons Join_pair)
  next
    case False
    then have "e \<in> set es" using Cons.prems by simp
    from Cons.IH [OF this] show ?thesis by (simp add: joined_Cons)
  qed
qed

subsection \<open>The loop of \<^verbatim>\<open>Generate\<close>\<close>

lemma errors_loop_total:
  assumes "DiagnosticOutput g = Some d"
  shows "errors_loop g errs reterr s =
    (Return (joined reterr errs), write_all d (map (\<lambda>e. Sprintln [Error e]) errs) s)"
proof (induction errs arbitrary: reterr s)
  case Nil
  show ?case by (simp add: joined_Nil write_all_Nil)
next
  case (Cons e errs)
  show ?case by (simp add: assms Fprintln_Some Cons joined_Cons write_all_Cons write_all_Nil)
qed

lemma defaultwg_honours: "honours_contract (defaultwg h d)"
  by (simp add: honours_contract_def defaultwg_def Let_def split: prod.splits sum.splits)

lemma packages_loop_skip:
  assumes "DiagnosticOutput g = Some d" and "i < length (Patterns g)" and "Errors p \<noteq> []"
  shows "packages_loop h g i (p # ps) reterr s =
    packages_loop h g (Suc i) ps (joined reterr (Errors p))
      (write_all d (Sprintln [''package with pattern'', Patterns g ! i]
                    # Sprintln [''found package errors, not continuing'']
                    # map (\<lambda>e. Sprintln [Error e]) (Errors p)) s)"
  using assms
  by (simp add: Fprintln_Some errors_loop_total write_all_Cons write_all_Nil)

lemma packages_loop_handle:
  assumes "DiagnosticOutput g = Some d" and "i < length (Patterns g)" and "Errors p = []"
  shows "packages_loop h g i (p # ps) reterr s =
    (case HandlePackage h g p (write_all d [Sprintln [''package with pattern'', Patterns g ! i]] s) of
       (Panic x, s2) \<Rightarrow> (Panic x, s2)
     | (Return None, s2) \<Rightarrow> packages_loop h g (Suc i) ps reterr s2
     | (Return (Some err), s2) \<Rightarrow>
         packages_loop h g (Suc i) ps (Join [reterr, Some err])
           (write_all d [Sprintln [''generate error:'', Error err]] s2))"
  using assms
  by (simp add: Fprintln_Some write_all_Cons write_all_Nil
        split: prod.splits outcome.splits option.splits)

lemma packages_loop_refines:
  assumes d: "DiagnosticOutput g = Some d"
    and bound: "i + length ps \<le> length (Patterns g)"
    and returns: "\<forall>p\<in>set ps. \<forall>s. \<exists>r s'. HandlePackage h g p s = (Return r, s')"
  shows "packages_loop h g i ps reterr s =
    (case PerPackage h g d (zip (drop i (Patterns g)) ps) s of
       (es, s') \<Rightarrow> (Return (joined reterr es), s'))"
  using bound returns
proof (induction ps arbitrary: i reterr s)
  case Nil
  show ?case by (simp add: joined_Nil)
next
  case (Cons p ps)
  have i: "i < length (Patterns g)" and bound': "Suc i + length ps \<le> length (Patterns g)"
    using Cons.prems(1) by simp_all
  have returns': "\<forall>p\<in>set ps. \<forall>s. \<exists>r s'. HandlePackage h g p s = (Return r, s')"
    using Cons.prems(2) by simp
  note IH = Cons.IH [OF bound' returns']
  have drop: "drop i (Patterns g) = Patterns g ! i # drop (Suc i) (Patterns g)"
    using i by (simp add: Cons_nth_drop_Suc)
  show ?case
  proof (cases "Errors p = []")
    case False
    show ?thesis
      unfolding packages_loop_skip [OF d i False] drop
      by (simp add: IH False write_all_Cons write_all_Nil joined_append split: prod.splits)
  next
    case True
    let ?s1 = "write_all d [Sprintln [''package with pattern'', Patterns g ! i]] s"
    obtain r s2 where hp: "HandlePackage h g p ?s1 = (Return r, s2)"
      using Cons.prems(2) by (meson list.set_intros(1))
    show ?thesis
      unfolding packages_loop_handle [OF d i True] drop
      by (cases r) (simp_all add: hp IH True joined_Cons split: prod.splits)
  qed
qed

lemma PerPackage_records:
  assumes "length ps \<le> length patterns"
    and "\<forall>p\<in>set ps. \<forall>s. \<exists>r s'. HandlePackage h g p s = (Return r, s')"
  shows "\<forall>p\<in>set ps. set (Errors p) \<subseteq> set (fst (PerPackage h g d (zip patterns ps) s))"
  using assms
proof (induction ps arbitrary: patterns s)
  case Nil
  show ?case by simp
next
  case (Cons p ps)
  then obtain pattern rest where patterns: "patterns = pattern # rest"
    by (cases patterns) auto
  have len: "length ps \<le> length rest" using Cons.prems(1) patterns by simp
  have returns': "\<forall>p\<in>set ps. \<forall>s. \<exists>r s'. HandlePackage h g p s = (Return r, s')"
    using Cons.prems(2) by simp
  note IH = Cons.IH [OF len returns']
  show ?case
  proof (cases "Errors p = []")
    case False
    let ?s2 = "write_all d (Sprintln [''found package errors, not continuing'']
                 # map (\<lambda>e. Sprintln [Error e]) (Errors p))
                 (write_all d [Sprintln [''package with pattern'', pattern]] s)"
    have "fst (PerPackage h g d (zip patterns (p # ps)) s)
            = Errors p @ fst (PerPackage h g d (zip rest ps) ?s2)"
      by (simp add: patterns False case_prod_beta Let_def)
    then show ?thesis using IH [of ?s2] by auto
  next
    case True
    let ?s1 = "write_all d [Sprintln [''package with pattern'', pattern]] s"
    obtain r s2 where hp: "HandlePackage h g p ?s1 = (Return r, s2)"
      using Cons.prems(2) by (meson list.set_intros(1))
    show ?thesis
    proof (cases r)
      case None
      have "fst (PerPackage h g d (zip patterns (p # ps)) s)
              = fst (PerPackage h g d (zip rest ps) s2)"
        by (simp add: patterns True hp None Let_def)
      then show ?thesis using IH [of s2] True by auto
    next
      case (Some e)
      let ?s3 = "write_all d [Sprintln [''generate error:'', Error e]] s2"
      have "fst (PerPackage h g d (zip patterns (p # ps)) s)
              = e # fst (PerPackage h g d (zip rest ps) ?s3)"
        by (simp add: patterns True hp Some case_prod_beta Let_def)
      then show ?thesis using IH [of ?s3] True by auto
    qed
  qed
qed

lemma with_defaults_fields:
  "DiagnosticOutput (with_defaults h g) = Some (diagnostics h g)"
  "Patterns (with_defaults h g) = Patterns g"
  "Output (with_defaults h g) = Output g"
  "WriteCloserCreator (with_defaults h g) =
     Some (case WriteCloserCreator g of None \<Rightarrow> defaultwg h (diagnostics h g) | Some c \<Rightarrow> c)"
  by (simp_all add: with_defaults_def diagnostics_def Let_def split: option.splits)

lemma Generate_loop:
  assumes "packages_Load h (Patterns g) s = ((ps, None), s1)" and "ps \<noteq> []"
  shows "Generate h g s = packages_loop h (with_defaults h g) 0 ps None s1"
  using assms by (simp add: Generate_def with_defaults_fields Let_def)

lemma errors_loop_keeps:
  assumes "errors_loop g errs (Some a0) s = (Return r, s')" and "x \<in> set (parts a0)"
  shows "\<exists>a. r = Some a \<and> x \<in> set (parts a)"
  using assms
proof (induction errs arbitrary: a0 s)
  case Nil
  then show ?case by auto
next
  case (Cons e errs)
  have "x \<in> set (parts (JoinError [a0, e]))" using Cons.prems(2) by simp
  with Cons.IH Cons.prems(1) show ?case
    by (auto simp add: Join_pair split: prod.splits outcome.splits)
qed

lemma packages_loop_keeps:
  assumes "packages_loop h g i ps (Some a0) s = (Return r, s')" and "x \<in> set (parts a0)"
  shows "\<exists>a. r = Some a \<and> x \<in> set (parts a)"
  using assms
proof (induction ps arbitrary: i a0 s)
  case Nil
  then show ?case by auto
next
  case (Cons p ps)
  have step: "x \<in> set (parts (JoinError [a0, e]))" for e using Cons.prems(2) by simp
  show ?case
  proof (cases "Errors p = []")
    case True
    with Cons.prems(1) Cons.IH [OF _ Cons.prems(2)] Cons.IH [OF _ step] show ?thesis
      by (auto simp add: Join_pair split: if_splits prod.splits outcome.splits option.splits)
  next
    case False
    with Cons.prems(1) show ?thesis
      apply (simp split: if_splits prod.splits outcome.splits)
      by (metis Cons.IH Cons.prems(2) errors_loop_keeps)
  qed
qed

text \<open>
  With more packages than patterns the loop ends in a panic, whatever the packages are.
\<close>

lemma packages_loop_out_of_range:
  "i \<le> length (Patterns g) \<Longrightarrow> length (Patterns g) < i + length ps \<Longrightarrow>
     \<exists>x s'. packages_loop h g i ps reterr s = (Panic x, s')"
proof (induction ps arbitrary: i reterr s)
  case Nil
  then show ?case by simp
next
  case (Cons p ps)
  have more: "length (Patterns g) < Suc i + length ps" using Cons.prems by simp
  show ?case
  proof (cases "DiagnosticOutput g")
    case None
    then show ?thesis by (simp add: Fprintln_def)
  next
    case (Some d)
    show ?thesis
    proof (cases "i < length (Patterns g)")
      case False
      then show ?thesis by simp
    next
      case True
      then have "Suc i \<le> length (Patterns g)" by simp
      note IH = Cons.IH [OF this more]
      show ?thesis
      proof (cases "Errors p = []")
        case False
        show ?thesis unfolding packages_loop_skip [OF Some True False] by (rule IH)
      next
        case True': True
        show ?thesis
          unfolding packages_loop_handle [OF Some True True']
          using IH by (auto split: prod.splits outcome.splits option.splits)
      qed
    qed
  qed
qed

subsection \<open>What \<^verbatim>\<open>HandlePackage\<close> writes and returns\<close>

lemma artifact_parts:
  "artifact h g pn tns =
     (if Header g = [] then [] else [Header g])
     @ (if NoPackage g then [] else [Sprintf h ''package %s\<newline>\<newline>'' [pn]])
     @ (if Preamble g = [] then [] else [Preamble g @ ''\<newline>\<newline>''])
     @ map (\<lambda>tn. Sprintf h (Format g) [tn, tn]) tns"
  by (simp add: artifact_def stub_def)

lemma HandlePackage_sink:
  assumes "GoFiles p \<noteq> []"
    and walk: "files_loop g (Syntax p) [] [] s = (Return (pn, tns), s1)"
    and sink: "Output g = Some w \<and> s2 = s1
         \<or> Output g = None \<and> WriteCloserCreator g = Some c
           \<and> c (filepath_Dir h (GoFiles p ! 0)) pn s1 = ((Some w, None), s2)"
  shows "HandlePackage h g p s =
    (Return None, closing g w (write_all w (artifact h g pn tns) s2))"
  using sink
proof
  assume "Output g = Some w \<and> s2 = s1"
  then show ?thesis
    using HandlePackage_Output [OF assms(1) _ walk, of w h] by (simp add: emit_writes)
next
  assume "Output g = None \<and> WriteCloserCreator g = Some c
           \<and> c (filepath_Dir h (GoFiles p ! 0)) pn s1 = ((Some w, None), s2)"
  then show ?thesis
    using HandlePackage_creator [OF assms(1) _ _ walk, of c h "(Some w, None)" s2]
    by (simp add: emit_writes)
qed

text \<open>
  An error that \<^verbatim>\<open>HandlePackage\<close> returns is the one for a package without files or
  one that the creator returned; no write and no close is the source of one.
\<close>

lemma HandlePackage_error_source:
  assumes "HandlePackage h g p s = (Return (Some e), s')"
  shows "e = New ''no Go files in package''
     \<or> (\<exists>c path modname st w st'.
           Output g = None \<and> WriteCloserCreator g = Some c
           \<and> c path modname st = ((w, Some e), st'))"
proof (cases "GoFiles p = []")
  case True
  with assms show ?thesis by (simp add: HandlePackage_def)
next
  case False
  obtain r s1 where walk: "files_loop g (Syntax p) [] [] s = (r, s1)"
    by (cases "files_loop g (Syntax p) [] [] s") auto
  show ?thesis
  proof (cases r)
    case (Panic x)
    with assms False walk show ?thesis by (simp add: HandlePackage_def)
  next
    case (Return names)
    obtain pn tns where names: "names = (pn, tns)" by (cases names) auto
    show ?thesis
    proof (cases "Output g")
      case (Some w)
      with assms False walk Return names show ?thesis by (simp add: HandlePackage_def)
    next
      case None
      show ?thesis
      proof (cases "WriteCloserCreator g")
        case None
        with assms False walk Return names \<open>Output g = None\<close> show ?thesis
          by (simp add: HandlePackage_def)
      next
        case (Some c)
        obtain w err s2 where call:
          "c (filepath_Dir h (GoFiles p ! 0)) pn s1 = ((w, err), s2)"
          by (cases "c (filepath_Dir h (GoFiles p ! 0)) pn s1") auto
        from assms False walk Return names \<open>Output g = None\<close> Some call
        have "err = Some e"
          by (cases err; cases w) (simp_all add: HandlePackage_def)
        with call Some \<open>Output g = None\<close> show ?thesis by blast
      qed
    qed
  qed
qed

lemma PerPackage_sources:
  "\<forall>e\<in>set (fst (PerPackage h g d zs s)).
     (\<exists>p\<in>snd ` set zs. e \<in> set (Errors p))
     \<or> e = New ''no Go files in package''
     \<or> (\<exists>c path modname st w st'.
           Output g = None \<and> WriteCloserCreator g = Some c
           \<and> c path modname st = ((w, Some e), st'))"
proof (induction zs arbitrary: s)
  case Nil
  show ?case by simp
next
  case (Cons z zs)
  obtain pattern p where z: "z = (pattern, p)" by (cases z) auto
  let ?s1 = "write_all d [Sprintln [''package with pattern'', pattern]] s"
  show ?case
  proof (cases "Errors p = []")
    case False
    let ?s2 = "write_all d (Sprintln [''found package errors, not continuing'']
                 # map (\<lambda>e. Sprintln [Error e]) (Errors p)) ?s1"
    have "fst (PerPackage h g d (z # zs) s) = Errors p @ fst (PerPackage h g d zs ?s2)"
      by (simp add: z False case_prod_beta Let_def)
    then show ?thesis using Cons.IH [of ?s2] by (auto simp add: z)
  next
    case True
    obtain r s2 where hp: "HandlePackage h g p ?s1 = (r, s2)"
      by (cases "HandlePackage h g p ?s1") auto
    show ?thesis
    proof (cases r)
      case (Panic x)
      then have "fst (PerPackage h g d (z # zs) s) = []"
        by (simp add: z True hp Let_def)
      then show ?thesis by simp
    next
      case (Return res)
      show ?thesis
      proof (cases res)
        case None
        have "fst (PerPackage h g d (z # zs) s) = fst (PerPackage h g d zs s2)"
          by (simp add: z True hp Return None Let_def)
        then show ?thesis using Cons.IH [of s2] by (auto simp add: z)
      next
        case (Some e)
        let ?s3 = "write_all d [Sprintln [''generate error:'', Error e]] s2"
        have fst: "fst (PerPackage h g d (z # zs) s) = e # fst (PerPackage h g d zs ?s3)"
          by (simp add: z True hp Return Some case_prod_beta Let_def)
        have "HandlePackage h g p ?s1 = (Return (Some e), s2)"
          using hp Return Some by simp
        from HandlePackage_error_source [OF this] show ?thesis
          unfolding fst using Cons.IH [of ?s3] by (auto simp add: z)
      qed
    qed
  qed
qed

subsection \<open>Unfolding the concrete runs\<close>

lemmas run_defs =
  Generate_def with_defaults_def HandlePackage_def emit_def Fprintln_def Fprint_def
  Fprintf_def Sprint_def Sprintln_def MatchString_def test_host_def failing_host_def
  config_def config_one_def world0_def Stderr_def MultiBuffer_def FailingWriter_def
  test_creator_def broken_creator_def failing_creator_def failing_sink_creator_def
  dir_of_def exactly_def Join_def
  List.map_filter_def

text \<open>The three runs of \<^verbatim>\<open>TestOne\<close>, with the output the test expects.\<close>

lemma TestOne_accept_all:
  "Generate (test_host [pkg_one]) config_one world0
   = (Return None,
      world0\<lparr>stderr := ''package with pattern ./testdata/one\<newline>including: Int\<newline>including: String\<newline>including: Struct\<newline>'',
             history := [''// the header\<newline>package one\<newline>\<newline>import (\<newline>    \"fmt\"\<newline>    \"os\"\<newline>)\<newline>\<newline>Int,Int\<newline>String,String\<newline>Struct,Struct\<newline>''],
             calls := [(''testdata/one'', ''one'')]\<rparr>)"
  by (simp add: run_defs pkg_one_def)

lemma TestOne_ignore_some:
  "Generate (test_host [pkg_one])
     (config_one\<lparr>Ignores := [contains ''ring'', exactly ''Struct'']\<rparr>) world0
   = (Return None,
      world0\<lparr>stderr := ''package with pattern ./testdata/one\<newline>including: Int\<newline>ignoring: String\<newline>ignoring: Struct\<newline>'',
             history := [''// the header\<newline>package one\<newline>\<newline>import (\<newline>    \"fmt\"\<newline>    \"os\"\<newline>)\<newline>\<newline>Int,Int\<newline>''],
             calls := [(''testdata/one'', ''one'')]\<rparr>)"
  by (simp add: run_defs pkg_one_def)

lemma TestOne_include_and_ignore:
  "Generate (test_host [pkg_one])
     (config_one\<lparr>Includes := [contains ''String'', exactly ''Int''],
                 Ignores := [contains ''String'']\<rparr>) world0
   = (Return None,
      world0\<lparr>stderr := ''package with pattern ./testdata/one\<newline>including: Int\<newline>ignoring: String\<newline>not included: Struct\<newline>'',
             history := [''// the header\<newline>package one\<newline>\<newline>import (\<newline>    \"fmt\"\<newline>    \"os\"\<newline>)\<newline>\<newline>Int,Int\<newline>''],
             calls := [(''testdata/one'', ''one'')]\<rparr>)"
  by (simp add: run_defs pkg_one_def)

text \<open>\<^verbatim>\<open>TestThree\<close>: two packages, two patterns, two artifacts.\<close>

lemma TestThree_both_subpackages:
  "Generate (test_host [pkg_threeone, pkg_threetwo])
     (config [''./testdata/three/threeone'', ''./testdata/three/threetwo''] test_creator) world0
   = (Return None,
      world0\<lparr>stderr := ''package with pattern ./testdata/three/threeone\<newline>including: THREEONE\<newline>package with pattern ./testdata/three/threetwo\<newline>including: THREETWO\<newline>'',
             history := [''package threeone\<newline>\<newline>THREEONE,THREEONE\<newline>'',
                         ''package threetwo\<newline>\<newline>THREETWO,THREETWO\<newline>''],
             calls := [(''testdata/three/threeone'', ''threeone''),
                       (''testdata/three/threetwo'', ''threetwo'')]\<rparr>)"
  by (simp add: run_defs pkg_threeone_def pkg_threetwo_def)

subsection \<open>The filter\<close>

text \<open>
  C1. A name that an ignore pattern matches is not among the names the walk over the
  package's files keeps, whatever the include list holds: ignoring comes before
  including. What \<^verbatim>\<open>HandlePackage\<close> then writes to the sink, the configured one or the
  one the creator returns, is the header, the package clause, the preamble and one stub
  line for each name kept and no other, so no stub is written for the ignored name.
  (The walk runs to its end on files as the parser delivers them, with a diagnostic
  writer set, as \<^verbatim>\<open>Generate\<close> sets it.)
\<close>

theorem ignore_takes_precedence:
  assumes "DiagnosticOutput g = Some d" and "well_formed (Syntax p)"
    and "\<exists>r\<in>set (Ignores g). MatchString r name"
    and "GoFiles p \<noteq> []"
    and "Output g = Some w \<and> s2 = narrated g d (Syntax p) s
         \<or> Output g = None \<and> WriteCloserCreator g = Some c
           \<and> c (filepath_Dir h (GoFiles p ! 0)) (package_name (Syntax p))
                (narrated g d (Syntax p) s) = ((Some w, None), s2)"
  shows "\<exists>typenames.
           files_loop g (Syntax p) [] [] s
             = (Return (package_name (Syntax p), typenames), narrated g d (Syntax p) s)
           \<and> name \<notin> set typenames
           \<and> HandlePackage h g p s =
               (Return None,
                closing g w
                  (write_all w
                     ((if Header g = [] then [] else [Header g])
                      @ (if NoPackage g then []
                         else [Sprintf h ''package %s\<newline>\<newline>'' [package_name (Syntax p)]])
                      @ (if Preamble g = [] then [] else [Preamble g @ ''\<newline>\<newline>''])
                      @ map (\<lambda>tn. Sprintf h (Format g) [tn, tn]) typenames)
                     s2))"
proof -
  note walk = files_loop_package [OF assms(1,2), of s]
  have "name \<notin> set (accepted g (Syntax p))"
    using assms(3) by (simp add: accepted_def included_def)
  moreover note HandlePackage_sink [OF assms(4) walk assms(5), unfolded artifact_parts]
  ultimately show ?thesis using walk by blast
qed

theorem ignore_takes_precedence_witness:
  "HandlePackage (test_host [])
     (config_one\<lparr>Includes := [contains ''String'', exactly ''Int''],
                 Ignores := [contains ''String''],
                 DiagnosticOutput := Some Stderr\<rparr>)
     pkg_one world0
   = (Return None,
      world0\<lparr>stderr := ''including: Int\<newline>ignoring: String\<newline>not included: Struct\<newline>'',
             history := [''// the header\<newline>package one\<newline>\<newline>import (\<newline>    \"fmt\"\<newline>    \"os\"\<newline>)\<newline>\<newline>Int,Int\<newline>''],
             calls := [(''testdata/one'', ''one'')]\<rparr>)"
proof -
  let ?g = "config_one\<lparr>Includes := [contains ''String'', exactly ''Int''],
                        Ignores := [contains ''String''], DiagnosticOutput := Some Stderr\<rparr>"
  let ?s1 = "world0\<lparr>stderr := ''including: Int\<newline>ignoring: String\<newline>not included: Struct\<newline>''\<rparr>"
  let ?s2 = "?s1\<lparr>calls := [(''testdata/one'', ''one'')]\<rparr>"
  have h1: "DiagnosticOutput ?g = Some Stderr" by simp
  have h2: "well_formed (Syntax pkg_one)" by (simp add: pkg_one_def well_formed_def)
  have h3: "\<exists>r\<in>set (Ignores ?g). MatchString r ''String''" by (simp add: MatchString_def)
  have h4: "GoFiles pkg_one \<noteq> []" by (simp add: pkg_one_def)
  have walk: "files_loop ?g (Syntax pkg_one) [] [] world0 = (Return (''one'', [''Int'']), ?s1)"
    by (simp add: run_defs pkg_one_def)
  have told: "narrated ?g Stderr (Syntax pkg_one) world0 = ?s1"
    using files_loop_package [OF h1 h2, of world0] walk by simp
  have call: "Output ?g = None \<and> WriteCloserCreator ?g = Some test_creator
           \<and> test_creator (filepath_Dir (test_host []) (GoFiles pkg_one ! 0))
                (package_name (Syntax pkg_one)) (narrated ?g Stderr (Syntax pkg_one) world0)
              = ((Some MultiBuffer, None), ?s2)"
    unfolding told by (simp add: run_defs pkg_one_def package_name_def)
  have h5: "Output ?g = Some MultiBuffer \<and> ?s2 = narrated ?g Stderr (Syntax pkg_one) world0
         \<or> Output ?g = None \<and> WriteCloserCreator ?g = Some test_creator
           \<and> test_creator (filepath_Dir (test_host []) (GoFiles pkg_one ! 0))
                (package_name (Syntax pkg_one)) (narrated ?g Stderr (Syntax pkg_one) world0)
              = ((Some MultiBuffer, None), ?s2)"
    using call by (rule disjI2)
  from ignore_takes_precedence [OF h1 h2 h3 h4 h5]
  obtain typenames where
    kept: "files_loop ?g (Syntax pkg_one) [] [] world0
             = (Return (package_name (Syntax pkg_one), typenames),
                narrated ?g Stderr (Syntax pkg_one) world0)"
    and "''String'' \<notin> set typenames"
    and run: "HandlePackage (test_host []) ?g pkg_one world0 =
       (Return None,
        closing ?g MultiBuffer
          (write_all MultiBuffer
             ((if Header ?g = [] then [] else [Header ?g])
              @ (if NoPackage ?g then []
                 else [Sprintf (test_host []) ''package %s\<newline>\<newline>''
                         [package_name (Syntax pkg_one)]])
              @ (if Preamble ?g = [] then [] else [Preamble ?g @ ''\<newline>\<newline>''])
              @ map (\<lambda>tn. Sprintf (test_host []) (Format ?g) [tn, tn]) typenames)
             ?s2))"
    by blast
  from kept walk have "typenames = [''Int'']" by simp
  with run show ?thesis
    by (simp add: run_defs pkg_one_def write_all_def closing_def package_name_def)
qed

text \<open>
  C2. For every type name the walk considers: with an empty include list the name is
  kept iff no ignore pattern matches it; with a non-empty include list it is kept iff
  no ignore pattern matches it and some include pattern does.
\<close>

theorem include_list_semantics:
  assumes "DiagnosticOutput g = Some d" and "well_formed (Syntax p)"
  shows "\<exists>packagename typenames s'.
           files_loop g (Syntax p) [] [] s = (Return (packagename, typenames), s')
           \<and> (\<forall>name\<in>set (type_names (Syntax p)).
                 (Includes g = [] \<longrightarrow>
                    (name \<in> set typenames \<longleftrightarrow> \<not> (\<exists>r\<in>set (Ignores g). MatchString r name)))
               \<and> (Includes g \<noteq> [] \<longrightarrow>
                    (name \<in> set typenames \<longleftrightarrow>
                       \<not> (\<exists>r\<in>set (Ignores g). MatchString r name)
                       \<and> (\<exists>r\<in>set (Includes g). MatchString r name))))"
  using files_loop_package [OF assms, of s]
  by (auto simp add: accepted_def included_def)

theorem include_list_semantics_witness:
  "(\<exists>packagename typenames s'.
      files_loop (config_one\<lparr>Includes := [exactly ''Int'', exactly ''Struct''],
                              Ignores := [contains ''ruct''],
                              DiagnosticOutput := Some Stderr\<rparr>)
        (Syntax pkg_one) [] [] world0 = (Return (packagename, typenames), s')
      \<and> ''Int'' \<in> set typenames \<and> ''String'' \<notin> set typenames
      \<and> ''Struct'' \<notin> set typenames)
   \<and> (\<exists>packagename typenames s'.
      files_loop (config_one\<lparr>Ignores := [contains ''ruct''], DiagnosticOutput := Some Stderr\<rparr>)
        (Syntax pkg_one) [] [] world0 = (Return (packagename, typenames), s')
      \<and> ''Int'' \<in> set typenames \<and> ''String'' \<in> set typenames
      \<and> ''Struct'' \<notin> set typenames)"
proof -
  let ?g = "config_one\<lparr>Includes := [exactly ''Int'', exactly ''Struct''],
                        Ignores := [contains ''ruct''], DiagnosticOutput := Some Stderr\<rparr>"
  let ?g' = "config_one\<lparr>Ignores := [contains ''ruct''], DiagnosticOutput := Some Stderr\<rparr>"
  have h1: "DiagnosticOutput ?g = Some Stderr" and h1': "DiagnosticOutput ?g' = Some Stderr"
    by simp_all
  have h2: "well_formed (Syntax pkg_one)" by (simp add: pkg_one_def well_formed_def)
  have names: "type_names (Syntax pkg_one) = [''Int'', ''String'', ''Struct'']"
    by (simp add: pkg_one_def type_names_def)
  have some: "Includes ?g \<noteq> []" and none: "Includes ?g' = []"
    by (simp_all add: config_one_def config_def)
  from include_list_semantics [OF h1 h2, of world0] have first:
    "\<exists>packagename typenames s'.
      files_loop ?g (Syntax pkg_one) [] [] world0 = (Return (packagename, typenames), s')
      \<and> ''Int'' \<in> set typenames \<and> ''String'' \<notin> set typenames
      \<and> ''Struct'' \<notin> set typenames"
    unfolding names using some by (simp add: MatchString_def exactly_def)
  from include_list_semantics [OF h1' h2, of world0] have second:
    "\<exists>packagename typenames s'.
      files_loop ?g' (Syntax pkg_one) [] [] world0 = (Return (packagename, typenames), s')
      \<and> ''Int'' \<in> set typenames \<and> ''String'' \<in> set typenames
      \<and> ''Struct'' \<notin> set typenames"
    unfolding names using none by (simp add: MatchString_def)
  from first second show ?thesis by (rule conjI)
qed

subsection \<open>Emission\<close>

text \<open>
  C3 (as amended). The results of the writes and of the close are not read: once the
  walk has returned and the sink is there, the configured one or the one the creator
  returned, \<^verbatim>\<open>HandlePackage\<close> returns nil and performs every step of the emission in
  order (header, package clause, preamble, every stub line, close), each on the state
  the step before left, whatever that step returned.
\<close>

theorem write_failures_are_not_checked:
  assumes "GoFiles p \<noteq> []"
    and "files_loop g (Syntax p) [] [] s = (Return (packagename, typenames), s1)"
    and "Output g = Some w \<and> s2 = s1
         \<or> Output g = None \<and> WriteCloserCreator g = Some c
           \<and> c (filepath_Dir h (GoFiles p ! 0)) packagename s1 = ((Some w, None), s2)"
  shows "HandlePackage h g p s =
    (Return None,
     closing g w
       (write_all w
          ((if Header g = [] then [] else [Header g])
           @ (if NoPackage g then [] else [Sprintf h ''package %s\<newline>\<newline>'' [packagename]])
           @ (if Preamble g = [] then [] else [Preamble g @ ''\<newline>\<newline>''])
           @ map (\<lambda>tn. Sprintf h (Format g) [tn, tn]) typenames)
          s2))"
  using HandlePackage_sink [OF assms] by (simp add: artifact_parts)

theorem write_failures_are_not_checked_witness:
  "snd (fst (Write FailingWriter ''package two\<newline>\<newline>''
               (world0\<lparr>stderr := ''including: FIRST\<newline>including: SECOND\<newline>'',
                       calls := [(''testdata/two'', ''two'')]\<rparr>)))
     = Some (New ''write failed'')
   \<and> HandlePackage (test_host [])
       ((config [] failing_sink_creator)\<lparr>DiagnosticOutput := Some Stderr\<rparr>) pkg_two world0
     = (Return None,
        world0\<lparr>stderr := ''including: FIRST\<newline>including: SECOND\<newline>'',
               calls := [(''testdata/two'', ''two'')],
               rejected := [''package two\<newline>\<newline>'', ''FIRST,FIRST\<newline>'', ''SECOND,SECOND\<newline>''],
               closes := 1\<rparr>)
   \<and> HandlePackage (test_host [])
       ((config [] test_creator)\<lparr>Output := Some FailingWriter,
                                  DiagnosticOutput := Some Stderr\<rparr>) pkg_two world0
     = (Return None,
        world0\<lparr>stderr := ''including: FIRST\<newline>including: SECOND\<newline>'',
               rejected := [''package two\<newline>\<newline>'', ''FIRST,FIRST\<newline>'', ''SECOND,SECOND\<newline>''],
               closes := 1\<rparr>)"
proof -
  let ?g = "(config [] failing_sink_creator)\<lparr>DiagnosticOutput := Some Stderr\<rparr>"
  let ?g' = "(config [] test_creator)\<lparr>Output := Some FailingWriter,
                                         DiagnosticOutput := Some Stderr\<rparr>"
  let ?s1 = "world0\<lparr>stderr := ''including: FIRST\<newline>including: SECOND\<newline>''\<rparr>"
  let ?s2 = "?s1\<lparr>calls := [(''testdata/two'', ''two'')]\<rparr>"
  have h1: "GoFiles pkg_two \<noteq> []" by (simp add: pkg_two_def)
  have h2: "files_loop ?g (Syntax pkg_two) [] [] world0
              = (Return (''two'', [''FIRST'', ''SECOND'']), ?s1)"
    by (simp add: run_defs pkg_two_def)
  have h2': "files_loop ?g' (Syntax pkg_two) [] [] world0
              = (Return (''two'', [''FIRST'', ''SECOND'']), ?s1)"
    by (simp add: run_defs pkg_two_def)
  have call: "Output ?g = None \<and> WriteCloserCreator ?g = Some failing_sink_creator
         \<and> failing_sink_creator (filepath_Dir (test_host []) (GoFiles pkg_two ! 0)) ''two'' ?s1
            = ((Some FailingWriter, None), ?s2)"
    by (simp add: run_defs pkg_two_def)
  have h3: "Output ?g = Some FailingWriter \<and> ?s2 = ?s1
         \<or> Output ?g = None \<and> WriteCloserCreator ?g = Some failing_sink_creator
         \<and> failing_sink_creator (filepath_Dir (test_host []) (GoFiles pkg_two ! 0)) ''two'' ?s1
            = ((Some FailingWriter, None), ?s2)"
    using call by (rule disjI2)
  have h3': "Output ?g' = Some FailingWriter \<and> ?s1 = ?s1
         \<or> Output ?g' = None \<and> WriteCloserCreator ?g' = Some test_creator
         \<and> test_creator (filepath_Dir (test_host []) (GoFiles pkg_two ! 0)) ''two'' ?s1
            = ((Some FailingWriter, None), ?s1)"
    by simp
  have fails: "snd (fst (Write FailingWriter ''package two\<newline>\<newline>'' ?s2))
                 = Some (New ''write failed'')"
    by (simp add: FailingWriter_def)
  from write_failures_are_not_checked [OF h1 h2 h3] have created:
    "HandlePackage (test_host []) ?g pkg_two world0
     = (Return None,
        world0\<lparr>stderr := ''including: FIRST\<newline>including: SECOND\<newline>'',
               calls := [(''testdata/two'', ''two'')],
               rejected := [''package two\<newline>\<newline>'', ''FIRST,FIRST\<newline>'', ''SECOND,SECOND\<newline>''],
               closes := 1\<rparr>)"
    by (simp add: run_defs write_all_def closing_def)
  from write_failures_are_not_checked [OF h1 h2' h3'] have configured:
    "HandlePackage (test_host []) ?g' pkg_two world0
     = (Return None,
        world0\<lparr>stderr := ''including: FIRST\<newline>including: SECOND\<newline>'',
               rejected := [''package two\<newline>\<newline>'', ''FIRST,FIRST\<newline>'', ''SECOND,SECOND\<newline>''],
               closes := 1\<rparr>)"
    by (simp add: run_defs write_all_def closing_def)
  from fails created configured show ?thesis by blast
qed

text \<open>
  C3 as it was stated fails: the first write of this run fails, and yet no error is
  returned and the package clause, both stubs and the close follow.
\<close>

theorem write_failure_does_not_propagate:
  "snd (fst (Write FailingWriter ''// generated'' world0)) = Some (New ''write failed'')
   \<and> fst (HandlePackage (test_host [])
            ((config [] test_creator)\<lparr>Output := Some FailingWriter, Header := ''// generated'',
                                        DiagnosticOutput := Some Stderr\<rparr>)
            pkg_two world0) = Return None
   \<and> rejected (snd (HandlePackage (test_host [])
            ((config [] test_creator)\<lparr>Output := Some FailingWriter, Header := ''// generated'',
                                        DiagnosticOutput := Some Stderr\<rparr>)
            pkg_two world0))
       = [''// generated'', ''package two\<newline>\<newline>'', ''FIRST,FIRST\<newline>'', ''SECOND,SECOND\<newline>'']
   \<and> closes (snd (HandlePackage (test_host [])
            ((config [] test_creator)\<lparr>Output := Some FailingWriter, Header := ''// generated'',
                                        DiagnosticOutput := Some Stderr\<rparr>)
            pkg_two world0)) = 1"
  by (simp add: run_defs pkg_two_def)

text \<open>
  C6. For a package that is processed to the end, the names are taken from the files in
  the order of the file list and from the declarations in source order, and one stub
  line is written for each name that passes the filter, in that order, after the
  header, the package clause and the preamble, where these are configured. The writer
  is the configured one or the one the creator returns.
\<close>

theorem stubs_in_traversal_order:
  assumes "DiagnosticOutput g = Some d" and "well_formed (Syntax p)" and "GoFiles p \<noteq> []"
    and "Output g = Some w \<and> s2 = narrated g d (Syntax p) s
         \<or> Output g = None \<and> WriteCloserCreator g = Some c
           \<and> c (filepath_Dir h (GoFiles p ! 0)) (package_name (Syntax p))
                (narrated g d (Syntax p) s) = ((Some w, None), s2)"
  shows "HandlePackage h g p s =
    (Return None,
     closing g w
       (write_all w
          ((if Header g = [] then [] else [Header g])
           @ (if NoPackage g then []
              else [Sprintf h ''package %s\<newline>\<newline>'' [package_name (Syntax p)]])
           @ (if Preamble g = [] then [] else [Preamble g @ ''\<newline>\<newline>''])
           @ map (\<lambda>tn. Sprintf h (Format g) [tn, tn])
               (filter (\<lambda>tn. included tn (Includes g) (Ignores g)) (type_names (Syntax p))))
          s2))"
proof -
  note walk = files_loop_package [OF assms(1,2), of s]
  have art: "artifact h g (package_name (Syntax p)) (accepted g (Syntax p)) =
     (if Header g = [] then [] else [Header g])
     @ (if NoPackage g then []
        else [Sprintf h ''package %s\<newline>\<newline>'' [package_name (Syntax p)]])
     @ (if Preamble g = [] then [] else [Preamble g @ ''\<newline>\<newline>''])
     @ map (\<lambda>tn. Sprintf h (Format g) [tn, tn])
         (filter (\<lambda>tn. included tn (Includes g) (Ignores g)) (type_names (Syntax p)))"
    by (simp add: artifact_def accepted_def stub_def)
  from assms(4) show ?thesis
  proof
    assume "Output g = Some w \<and> s2 = narrated g d (Syntax p) s"
    then show ?thesis
      using HandlePackage_Output [OF assms(3) _ walk, of w h] art by (simp add: emit_writes)
  next
    assume "Output g = None \<and> WriteCloserCreator g = Some c
           \<and> c (filepath_Dir h (GoFiles p ! 0)) (package_name (Syntax p))
                (narrated g d (Syntax p) s) = ((Some w, None), s2)"
    then show ?thesis
      using HandlePackage_creator [OF assms(3) _ _ walk, of c h "(Some w, None)" s2] art
      by (simp add: emit_writes)
  qed
qed

theorem stubs_in_traversal_order_witness:
  "HandlePackage (test_host []) (config_one\<lparr>DiagnosticOutput := Some Stderr\<rparr>) pkg_one world0
   = (Return None,
      world0\<lparr>stderr := ''including: Int\<newline>including: String\<newline>including: Struct\<newline>'',
             history := [''// the header\<newline>package one\<newline>\<newline>import (\<newline>    \"fmt\"\<newline>    \"os\"\<newline>)\<newline>\<newline>Int,Int\<newline>String,String\<newline>Struct,Struct\<newline>''],
             calls := [(''testdata/one'', ''one'')]\<rparr>)"
proof -
  let ?g = "config_one\<lparr>DiagnosticOutput := Some Stderr\<rparr>"
  let ?s2 = "world0\<lparr>stderr := ''including: Int\<newline>including: String\<newline>including: Struct\<newline>'',
                    calls := [(''testdata/one'', ''one'')]\<rparr>"
  have h1: "DiagnosticOutput ?g = Some Stderr" by simp
  have h2: "well_formed (Syntax pkg_one)" by (simp add: pkg_one_def well_formed_def)
  have h3: "GoFiles pkg_one \<noteq> []" by (simp add: pkg_one_def)
  have call: "Output ?g = None \<and> WriteCloserCreator ?g = Some test_creator
           \<and> test_creator (filepath_Dir (test_host []) (GoFiles pkg_one ! 0))
                (package_name (Syntax pkg_one)) (narrated ?g Stderr (Syntax pkg_one) world0)
              = ((Some MultiBuffer, None), ?s2)"
    by (simp add: run_defs pkg_one_def narrated_def write_all_def verdict_def included_def
          type_names_def package_name_def)
  have h4: "Output ?g = Some MultiBuffer \<and> ?s2 = narrated ?g Stderr (Syntax pkg_one) world0
         \<or> Output ?g = None \<and> WriteCloserCreator ?g = Some test_creator
           \<and> test_creator (filepath_Dir (test_host []) (GoFiles pkg_one ! 0))
                (package_name (Syntax pkg_one)) (narrated ?g Stderr (Syntax pkg_one) world0)
              = ((Some MultiBuffer, None), ?s2)"
    using call by (rule disjI2)
  from stubs_in_traversal_order [OF h1 h2 h3 h4]
  show ?thesis
    by (simp add: run_defs pkg_one_def write_all_def closing_def included_def type_names_def
          package_name_def)
qed

text \<open>
  C9. For a package with at least one file, the name the walk returns is the one the
  last file of the list declares. That name is given to the creator, and the package
  clause \<^verbatim>\<open>HandlePackage\<close> writes to the sink, the configured one or the one the
  creator returns, is formatted from it (no clause is written when the configuration
  suppresses it).
\<close>

theorem package_name_from_last_file:
  assumes "DiagnosticOutput g = Some d" and "well_formed (Syntax p)" and "Syntax p \<noteq> []"
    and "GoFiles p \<noteq> []"
    and "Output g = Some w \<and> s2 = narrated g d (Syntax p) s
         \<or> Output g = None \<and> WriteCloserCreator g = Some c
           \<and> c (filepath_Dir h (GoFiles p ! 0)) (Name (last (Syntax p)))
                (narrated g d (Syntax p) s) = ((Some w, None), s2)"
  shows "(\<exists>typenames s1.
            files_loop g (Syntax p) [] [] s
              = (Return (Name (last (Syntax p)), typenames), s1))
     \<and> HandlePackage h g p s =
         (Return None,
          closing g w
            (write_all w
               ((if Header g = [] then [] else [Header g])
                @ (if NoPackage g then []
                   else [Sprintf h ''package %s\<newline>\<newline>'' [Name (last (Syntax p))]])
                @ (if Preamble g = [] then [] else [Preamble g @ ''\<newline>\<newline>''])
                @ map (\<lambda>tn. Sprintf h (Format g) [tn, tn])
                    (filter (\<lambda>tn. included tn (Includes g) (Ignores g))
                       (type_names (Syntax p))))
               s2))"
proof -
  have name: "package_name (Syntax p) = Name (last (Syntax p))"
    using assms(3) by (simp add: package_name_def)
  have walk: "files_loop g (Syntax p) [] [] s =
      (Return (Name (last (Syntax p)), accepted g (Syntax p)), narrated g d (Syntax p) s)"
    using files_loop_package [OF assms(1,2), of s] by (simp add: name)
  from HandlePackage_sink [OF assms(4) walk, of w s2 c h] assms(5) walk
  show ?thesis by (auto simp add: artifact_parts accepted_def)
qed

theorem package_name_from_last_file_witness:
  "HandlePackage (test_host [])
     ((config [] test_creator)\<lparr>DiagnosticOutput := Some Stderr\<rparr>) pkg_disagreeing world0
   = (Return None,
      world0\<lparr>stderr := ''including: A\<newline>including: B\<newline>'',
             history := [''package beta\<newline>\<newline>A,A\<newline>B,B\<newline>''],
             calls := [(''mixed'', ''beta'')]\<rparr>)"
proof -
  let ?g = "(config [] test_creator)\<lparr>DiagnosticOutput := Some Stderr\<rparr>"
  let ?s1 = "world0\<lparr>stderr := ''including: A\<newline>including: B\<newline>''\<rparr>"
  let ?s2 = "?s1\<lparr>calls := [(''mixed'', ''beta'')]\<rparr>"
  have h1: "DiagnosticOutput ?g = Some Stderr" by (simp add: config_def)
  have h2: "well_formed (Syntax pkg_disagreeing)"
    by (simp add: pkg_disagreeing_def well_formed_def)
  have h3: "Syntax pkg_disagreeing \<noteq> []" by (simp add: pkg_disagreeing_def)
  have h4: "GoFiles pkg_disagreeing \<noteq> []" by (simp add: pkg_disagreeing_def)
  have told: "narrated ?g Stderr (Syntax pkg_disagreeing) world0 = ?s1"
    by (simp add: run_defs pkg_disagreeing_def narrated_def write_all_def verdict_def
          included_def type_names_def)
  have call: "Output ?g = None \<and> WriteCloserCreator ?g = Some test_creator
         \<and> test_creator (filepath_Dir (test_host []) (GoFiles pkg_disagreeing ! 0))
              (Name (last (Syntax pkg_disagreeing)))
              (narrated ?g Stderr (Syntax pkg_disagreeing) world0)
            = ((Some MultiBuffer, None), ?s2)"
    unfolding told by (simp add: run_defs pkg_disagreeing_def)
  have h5: "Output ?g = Some MultiBuffer
             \<and> ?s2 = narrated ?g Stderr (Syntax pkg_disagreeing) world0
         \<or> Output ?g = None \<and> WriteCloserCreator ?g = Some test_creator
         \<and> test_creator (filepath_Dir (test_host []) (GoFiles pkg_disagreeing ! 0))
              (Name (last (Syntax pkg_disagreeing)))
              (narrated ?g Stderr (Syntax pkg_disagreeing) world0)
            = ((Some MultiBuffer, None), ?s2)"
    using call by (rule disjI2)
  from package_name_from_last_file [OF h1 h2 h3 h4 h5]
  show ?thesis
    by (simp add: run_defs pkg_disagreeing_def write_all_def closing_def included_def
          type_names_def)
qed

text \<open>The artifact of the package whose two files disagree names the last one.\<close>

lemma disagreeing_files_clause:
  "HandlePackage (test_host [])
     ((config [] test_creator)\<lparr>DiagnosticOutput := Some Stderr, Output := Some MultiBuffer\<rparr>)
     pkg_disagreeing world0
   = (Return None,
      world0\<lparr>stderr := ''including: A\<newline>including: B\<newline>'',
             history := [''package beta\<newline>\<newline>A,A\<newline>B,B\<newline>'']\<rparr>)"
  by (simp add: run_defs pkg_disagreeing_def)

subsection \<open>The run\<close>

text \<open>
  C5. When the loader returns an error, or no error and no package, the run fails: it
  returns the loader's error, or else the error \<open>no packages loaded\<close>, and never nil.
  The state is the one the loader left, with the one diagnostic line in the second case:
  no package is processed.
\<close>

theorem load_failure_is_fatal:
  assumes "packages_Load h (Patterns g) s = ((ps, err), s1)" and "err \<noteq> None \<or> ps = []"
  shows "Generate h g s =
      (case err of
         Some e \<Rightarrow> (Return (Some e), s1)
       | None \<Rightarrow> (Return (Some (New ''no packages loaded'')),
                  write_all (diagnostics h g) [Sprintln [''no packages loaded'']] s1))
    \<and> fst (Generate h g s) \<noteq> Return None"
proof (cases err)
  case None
  with assms show ?thesis
    by (simp add: Generate_def with_defaults_fields Fprintln_Some Let_def)
next
  case (Some e)
  with assms show ?thesis by (simp add: Generate_def with_defaults_fields Let_def)
qed

theorem load_failure_is_fatal_witness:
  "Generate failing_host (config [''[''] test_creator) world0
     = (Return (Some (New ''malformed pattern'')), world0)
   \<and> Generate (test_host []) (config [''./nothing''] test_creator) world0
     = (Return (Some (New ''no packages loaded'')),
        world0\<lparr>stderr := ''no packages loaded\<newline>''\<rparr>)"
proof -
  let ?g = "config [''[''] test_creator" and ?g' = "config [''./nothing''] test_creator"
  have h1: "packages_Load failing_host (Patterns ?g) world0
              = (([], Some (New ''malformed pattern'')), world0)"
    by (simp add: failing_host_def test_host_def)
  have h2: "Some (New ''malformed pattern'') \<noteq> None \<or> ([]::Package list) = []" by simp
  have h1': "packages_Load (test_host []) (Patterns ?g') world0 = (([], None), world0)"
    by (simp add: test_host_def)
  have h2': "(None::error option) \<noteq> None \<or> ([]::Package list) = []" by simp
  from load_failure_is_fatal [OF h1 h2] have first:
    "Generate failing_host ?g world0 = (Return (Some (New ''malformed pattern'')), world0)"
    by simp
  from load_failure_is_fatal [OF h1' h2'] have second:
    "Generate (test_host []) ?g' world0
       = (Return (Some (New ''no packages loaded'')), world0\<lparr>stderr := ''no packages loaded\<newline>''\<rparr>)"
    by (simp add: diagnostics_def config_def test_host_def write_all_def Stderr_def
          Sprintln_def world0_def)
  from first second show ?thesis by (rule conjI)
qed

text \<open>
  C4 (as amended). In a run whose loader returns packages, no more of them than there
  are patterns, with a creator that honours its contract: the run returns, and what it
  does is the \<open>PerPackage\<close> state of the specification on each package in turn. A
  package with load diagnostics is announced and skipped, its diagnostics recorded; an
  error that \<^verbatim>\<open>HandlePackage\<close> returns is recorded and the next package follows. The
  error returned is the join of the errors recorded: nil iff none was recorded, and
  otherwise an error that wraps each of them, the diagnostics of every package among
  them. An error recorded is a load diagnostic, the error for a package without files,
  or an error the creator returned: a failed write or close is not recorded.
\<close>

theorem run_aggregates_errors:
  assumes "packages_Load h (Patterns g) s = ((ps, None), s1)"
    and "ps \<noteq> []" and "length ps \<le> length (Patterns g)"
    and "\<forall>p\<in>set ps. well_formed (Syntax p)"
    and "\<forall>c. Output g = None \<longrightarrow> WriteCloserCreator g = Some c \<longrightarrow> honours_contract c"
    and "R = PerPackage h (with_defaults h g) (diagnostics h g) (zip (Patterns g) ps) s1"
  shows "Generate h g s = (Return (joined None (fst R)), snd R)
     \<and> (joined None (fst R) = None \<longleftrightarrow> fst R = [])
     \<and> (\<forall>e\<in>set (fst R). \<exists>a. joined None (fst R) = Some a \<and> e \<in> set (parts a))
     \<and> (\<forall>p\<in>set ps. set (Errors p) \<subseteq> set (fst R))
     \<and> (\<forall>e\<in>set (fst R).
           (\<exists>p\<in>set ps. e \<in> set (Errors p))
           \<or> e = New ''no Go files in package''
           \<or> (\<exists>c path modname st w st'.
                 Output g = None \<and> WriteCloserCreator (with_defaults h g) = Some c
                 \<and> c path modname st = ((w, Some e), st')))"
proof -
  let ?g = "with_defaults h g"
  have d: "DiagnosticOutput ?g = Some (diagnostics h g)" by (rule with_defaults_fields)
  have sink: "Output ?g \<noteq> None \<or> (\<exists>c. WriteCloserCreator ?g = Some c \<and> honours_contract c)"
  proof (cases "Output g")
    case None
    show ?thesis
    proof (cases "WriteCloserCreator g")
      case None
      then show ?thesis by (simp add: with_defaults_fields defaultwg_honours)
    next
      case (Some c)
      with assms(5) \<open>Output g = None\<close> have "honours_contract c" by simp
      with Some show ?thesis by (simp add: with_defaults_fields)
    qed
  next
    case (Some w)
    then show ?thesis by (simp add: with_defaults_fields)
  qed
  have returns: "\<forall>p\<in>set ps. \<forall>s. \<exists>r s'. HandlePackage h ?g p s = (Return r, s')"
    using HandlePackage_returns [OF d _ sink] assms(4) by blast
  have bound: "0 + length ps \<le> length (Patterns ?g)"
    using assms(3) by (simp add: with_defaults_fields)
  have run: "Generate h g s = (Return (joined None (fst R)), snd R)"
    unfolding Generate_loop [OF assms(1,2)] packages_loop_refines [OF d bound returns]
    by (simp add: assms(6) with_defaults_fields case_prod_beta)
  have recorded: "\<forall>p\<in>set ps. set (Errors p) \<subseteq> set (fst R)"
    unfolding assms(6) using PerPackage_records [OF assms(3) returns] by blast
  have "snd ` set (zip (Patterns g) ps) \<subseteq> set ps"
    by (auto dest: set_zip_rightD)
  then have sources: "\<forall>e\<in>set (fst R).
           (\<exists>p\<in>set ps. e \<in> set (Errors p))
           \<or> e = New ''no Go files in package''
           \<or> (\<exists>c path modname st w st'.
                 Output g = None \<and> WriteCloserCreator ?g = Some c
                 \<and> c path modname st = ((w, Some e), st'))"
  proof (intro ballI)
    fix e assume "e \<in> set (fst R)"
    with PerPackage_sources [of h ?g "diagnostics h g" "zip (Patterns g) ps" s1]
    have "(\<exists>p\<in>snd ` set (zip (Patterns g) ps). e \<in> set (Errors p))
           \<or> e = New ''no Go files in package''
           \<or> (\<exists>c path modname st w st'.
                 Output ?g = None \<and> WriteCloserCreator ?g = Some c
                 \<and> c path modname st = ((w, Some e), st'))"
      unfolding assms(6) by (rule bspec)
    with \<open>snd ` set (zip (Patterns g) ps) \<subseteq> set ps\<close>
    show "(\<exists>p\<in>set ps. e \<in> set (Errors p))
           \<or> e = New ''no Go files in package''
           \<or> (\<exists>c path modname st w st'.
                 Output g = None \<and> WriteCloserCreator ?g = Some c
                 \<and> c path modname st = ((w, Some e), st'))"
      unfolding with_defaults_fields(3) by blast
  qed
  have nil: "joined None (fst R) = None \<longleftrightarrow> fst R = []"
    by (simp add: joined_None_iff)
  have wraps: "\<forall>e\<in>set (fst R). \<exists>a. joined None (fst R) = Some a \<and> e \<in> set (parts a)"
    using joined_has [of _ "fst R" None] by blast
  from run nil wraps recorded sources show ?thesis by (intro conjI)
qed

theorem run_aggregates_errors_witness:
  "Generate (test_host [pkg_unparsed, pkg_no_files, pkg_two])
     (config [''./bad'', ''./none'', ''./testdata/two''] test_creator) world0
   = (Return (Some (JoinError
        [JoinError [PackagesError ''bad/bad.go:1:1: expected package, found EOF''],
         New ''no Go files in package''])),
      world0\<lparr>stderr := ''package with pattern ./bad\<newline>found package errors, not continuing\<newline>bad/bad.go:1:1: expected package, found EOF\<newline>package with pattern ./none\<newline>generate error: no Go files in package\<newline>package with pattern ./testdata/two\<newline>including: FIRST\<newline>including: SECOND\<newline>'',
             history := [''package two\<newline>\<newline>FIRST,FIRST\<newline>SECOND,SECOND\<newline>''],
             calls := [(''testdata/two'', ''two'')]\<rparr>)"
proof -
  let ?ps = "[pkg_unparsed, pkg_no_files, pkg_two]"
  let ?h = "test_host ?ps"
  let ?g = "config [''./bad'', ''./none'', ''./testdata/two''] test_creator"
  have h1: "packages_Load ?h (Patterns ?g) world0 = ((?ps, None), world0)"
    by (simp add: test_host_def)
  have h2: "?ps \<noteq> []" by simp
  have h3: "length ?ps \<le> length (Patterns ?g)" by (simp add: config_def)
  have h4: "\<forall>p\<in>set ?ps. well_formed (Syntax p)"
    by (simp add: pkg_unparsed_def pkg_no_files_def pkg_two_def well_formed_def)
  have h5: "\<forall>c. Output ?g = None \<longrightarrow> WriteCloserCreator ?g = Some c \<longrightarrow> honours_contract c"
    by (simp add: config_def honours_contract_def test_creator_def)
  from run_aggregates_errors [OF h1 h2 h3 h4 h5 refl, THEN conjunct1]
  show ?thesis
    by (simp add: run_defs pkg_unparsed_def pkg_no_files_def pkg_two_def
          diagnostics_def write_all_def joined_def)
qed

text \<open>
  C4 as it was stated fails: in this run every write of the emission and the close fail,
  and yet the run returns nil: no emission error is joined.
\<close>

theorem emission_failure_is_not_joined:
  "snd (fst (Write FailingWriter ''package two\<newline>\<newline>''
               (world0\<lparr>stderr := ''package with pattern ./testdata/two\<newline>including: FIRST\<newline>including: SECOND\<newline>'',
                       calls := [(''testdata/two'', ''two'')]\<rparr>)))
     = Some (New ''write failed'')
   \<and> Generate (test_host [pkg_two]) (config [''./testdata/two''] failing_sink_creator) world0
     = (Return None,
        world0\<lparr>stderr := ''package with pattern ./testdata/two\<newline>including: FIRST\<newline>including: SECOND\<newline>'',
               calls := [(''testdata/two'', ''two'')],
               rejected := [''package two\<newline>\<newline>'', ''FIRST,FIRST\<newline>'', ''SECOND,SECOND\<newline>''],
               closes := 1\<rparr>)"
  by (simp add: run_defs pkg_two_def)

text \<open>
  C8. \<^verbatim>\<open>HandlePackage\<close> on a package without source files returns the error
  \<open>no Go files in package\<close> and leaves the state as it was: no creator call, no write.
  In the loop, for a package without load diagnostics, the error is joined to the
  cumulative error, the loop goes on with the next package, and an error the run
  returns wraps it.
\<close>

theorem no_source_files:
  assumes "GoFiles p = []"
  shows "HandlePackage h g p s = (Return (Some (New ''no Go files in package'')), s)
     \<and> (DiagnosticOutput g = Some d \<longrightarrow> i < length (Patterns g) \<longrightarrow> Errors p = [] \<longrightarrow>
          packages_loop h g i (p # ps) reterr s =
            packages_loop h g (Suc i) ps (Join [reterr, Some (New ''no Go files in package'')])
              (write_all d [Sprintln [''package with pattern'', Patterns g ! i],
                            Sprintln [''generate error:'', ''no Go files in package'']] s)
          \<and> (\<forall>r s'. packages_loop h g i (p # ps) reterr s = (Return r, s') \<longrightarrow>
                (\<exists>a. r = Some a \<and> New ''no Go files in package'' \<in> set (parts a))))"
proof -
  have hp: "HandlePackage h g p s = (Return (Some (New ''no Go files in package'')), s)" for s
    using assms by (simp add: HandlePackage_def)
  have loop: "packages_loop h g i (p # ps) reterr s =
            packages_loop h g (Suc i) ps (Join [reterr, Some (New ''no Go files in package'')])
              (write_all d [Sprintln [''package with pattern'', Patterns g ! i],
                            Sprintln [''generate error:'', ''no Go files in package'']] s)"
    if "DiagnosticOutput g = Some d" "i < length (Patterns g)" "Errors p = []"
    unfolding packages_loop_handle [OF that] by (simp add: hp write_all_Cons write_all_Nil)
  have kept: "\<exists>a. r = Some a \<and> New ''no Go files in package'' \<in> set (parts a)"
    if "packages_loop h g (Suc i) ps (Join [reterr, Some (New ''no Go files in package'')]) s2
          = (Return r, s')" for r s' s2
  proof -
    have "New ''no Go files in package''
            \<in> set (parts (JoinError (case reterr of None \<Rightarrow> [New ''no Go files in package'']
                                      | Some a \<Rightarrow> [a, New ''no Go files in package''])))"
      by (simp split: option.splits)
    from packages_loop_keeps [OF _ this] that show ?thesis by (simp add: Join_pair)
  qed
  show ?thesis using hp loop kept by simp
qed

theorem no_source_files_witness:
  "HandlePackage (test_host []) ((config [''a'', ''b''] test_creator)\<lparr>DiagnosticOutput := Some Stderr\<rparr>)
      pkg_no_files world0
     = (Return (Some (New ''no Go files in package'')), world0)
   \<and> packages_loop (test_host []) ((config [''a'', ''b''] test_creator)\<lparr>DiagnosticOutput := Some Stderr\<rparr>)
        0 [pkg_no_files, pkg_two] None world0
     = (Return (Some (JoinError [New ''no Go files in package''])),
        world0\<lparr>stderr := ''package with pattern a\<newline>generate error: no Go files in package\<newline>package with pattern b\<newline>including: FIRST\<newline>including: SECOND\<newline>'',
               history := [''package two\<newline>\<newline>FIRST,FIRST\<newline>SECOND,SECOND\<newline>''],
               calls := [(''testdata/two'', ''two'')]\<rparr>)
   \<and> New ''no Go files in package''
       \<in> set (parts (JoinError [New ''no Go files in package'']))"
proof -
  let ?g = "(config [''a'', ''b''] test_creator)\<lparr>DiagnosticOutput := Some Stderr\<rparr>"
  let ?final = "world0\<lparr>stderr := ''package with pattern a\<newline>generate error: no Go files in package\<newline>package with pattern b\<newline>including: FIRST\<newline>including: SECOND\<newline>'',
               history := [''package two\<newline>\<newline>FIRST,FIRST\<newline>SECOND,SECOND\<newline>''],
               calls := [(''testdata/two'', ''two'')]\<rparr>"
  have h1: "GoFiles pkg_no_files = []" by (simp add: pkg_no_files_def)
  have h2: "DiagnosticOutput ?g = Some Stderr" by simp
  have h3: "0 < length (Patterns ?g)" by (simp add: config_def)
  have h4: "Errors pkg_no_files = []" by (simp add: pkg_no_files_def)
  note all = no_source_files [OF h1, of "test_host []" ?g world0 Stderr 0 "[pkg_two]" None]
  from all have first:
    "HandlePackage (test_host []) ?g pkg_no_files world0
       = (Return (Some (New ''no Go files in package'')), world0)"
    by (rule conjunct1)
  from all h2 h3 h4 have second:
    "packages_loop (test_host []) ?g 0 [pkg_no_files, pkg_two] None world0
       = packages_loop (test_host []) ?g (Suc 0) [pkg_two]
           (Join [None, Some (New ''no Go files in package'')])
           (write_all Stderr [Sprintln [''package with pattern'', Patterns ?g ! 0],
                              Sprintln [''generate error:'', ''no Go files in package'']] world0)"
    and third:
    "\<forall>r s'. packages_loop (test_host []) ?g 0 [pkg_no_files, pkg_two] None world0 = (Return r, s')
        \<longrightarrow> (\<exists>a. r = Some a \<and> New ''no Go files in package'' \<in> set (parts a))"
    by blast+
  have run: "packages_loop (test_host []) ?g 0 [pkg_no_files, pkg_two] None world0
       = (Return (Some (JoinError [New ''no Go files in package''])), ?final)"
    unfolding second by (simp add: run_defs pkg_two_def write_all_def)
  from third run have "New ''no Go files in package''
       \<in> set (parts (JoinError [New ''no Go files in package'']))"
    by blast
  with first run show ?thesis by blast
qed

text \<open>
  C7. When the creator returns neither a writer nor an error, the run panics with the
  error \<open>nil WriteCloser\<close>: the outcome of the loop is that panic, whatever error has
  been joined so far and whatever packages remain, and the state is the one the creator
  left.
\<close>

theorem nil_sink_halts_run:
  assumes "DiagnosticOutput g = Some d" and "i < length (Patterns g)" and "Errors p = []"
    and "GoFiles p \<noteq> []" and "well_formed (Syntax p)"
    and "Output g = None" and "WriteCloserCreator g = Some c"
    and "s1 = narrated g d (Syntax p)
                (write_all d [Sprintln [''package with pattern'', Patterns g ! i]] s)"
    and "fst (c (filepath_Dir h (GoFiles p ! 0)) (package_name (Syntax p)) s1) = (None, None)"
  shows "packages_loop h g i (p # ps) reterr s =
    (Panic (PanicValue (New ''nil WriteCloser'')),
     snd (c (filepath_Dir h (GoFiles p ! 0)) (package_name (Syntax p)) s1))"
proof -
  let ?s0 = "write_all d [Sprintln [''package with pattern'', Patterns g ! i]] s"
  have walk: "files_loop g (Syntax p) [] [] ?s0 =
      (Return (package_name (Syntax p), accepted g (Syntax p)), s1)"
    using files_loop_package [OF assms(1,5), of ?s0] assms(8) by simp
  obtain r s2 where call:
    "c (filepath_Dir h (GoFiles p ! 0)) (package_name (Syntax p)) s1 = (r, s2)"
    by (cases "c (filepath_Dir h (GoFiles p ! 0)) (package_name (Syntax p)) s1") auto
  with assms(9) have r: "r = (None, None)" by simp
  have "HandlePackage h g p ?s0 = (Panic (PanicValue (New ''nil WriteCloser'')), s2)"
    using HandlePackage_creator [OF assms(4,6,7) walk call] by (simp add: r)
  then show ?thesis
    unfolding packages_loop_handle [OF assms(1,2,3)] by (simp add: call)
qed

theorem nil_sink_halts_run_witness:
  "packages_loop (test_host [])
      ((config [''./three/one'', ''./three/two''] broken_creator)\<lparr>DiagnosticOutput := Some Stderr\<rparr>)
      0 [pkg_threeone, pkg_threetwo] (Some (New ''earlier'')) world0
   = (Panic (PanicValue (New ''nil WriteCloser'')),
      world0\<lparr>stderr := ''package with pattern ./three/one\<newline>including: THREEONE\<newline>'',
             calls := [(''testdata/three/threeone'', ''threeone'')]\<rparr>)"
proof -
  let ?g = "(config [''./three/one'', ''./three/two''] broken_creator)\<lparr>DiagnosticOutput := Some Stderr\<rparr>"
  let ?s1 = "narrated ?g Stderr (Syntax pkg_threeone)
               (write_all Stderr [Sprintln [''package with pattern'', Patterns ?g ! 0]] world0)"
  have h1: "DiagnosticOutput ?g = Some Stderr" by (simp add: config_def)
  have h2: "0 < length (Patterns ?g)" by (simp add: config_def)
  have h3: "Errors pkg_threeone = []" by (simp add: pkg_threeone_def)
  have h4: "GoFiles pkg_threeone \<noteq> []" by (simp add: pkg_threeone_def)
  have h5: "well_formed (Syntax pkg_threeone)" by (simp add: pkg_threeone_def well_formed_def)
  have h6: "Output ?g = None" by (simp add: config_def)
  have h7: "WriteCloserCreator ?g = Some broken_creator" by (simp add: config_def)
  have h9: "fst (broken_creator (filepath_Dir (test_host []) (GoFiles pkg_threeone ! 0))
                   (package_name (Syntax pkg_threeone)) ?s1) = (None, None)"
    by (simp add: broken_creator_def)
  from nil_sink_halts_run [OF h1 h2 h3 h4 h5 h6 h7 refl h9,
      of "[pkg_threetwo]" "Some (New ''earlier'')"]
  show ?thesis
    by (simp add: run_defs pkg_threeone_def narrated_def write_all_def verdict_def included_def
          type_names_def package_name_def)
qed

text \<open>
  C10. The loader answers the single pattern \<open>./testdata/three/...\<close> with the two
  packages below it. The first is processed; for the second the lookup
  \<^verbatim>\<open>g.Patterns[1]\<close> is out of range and the run panics.
\<close>

theorem pattern_index_out_of_range:
  "Generate (test_host [pkg_threeone, pkg_threetwo])
     (config [''./testdata/three/...''] test_creator) world0
   = (Panic (IndexOutOfRange 1 1),
      world0\<lparr>stderr := ''package with pattern ./testdata/three/...\<newline>including: THREEONE\<newline>'',
             history := [''package threeone\<newline>\<newline>THREEONE,THREEONE\<newline>''],
             calls := [(''testdata/three/threeone'', ''threeone'')]\<rparr>)"
  by (simp add: run_defs pkg_threeone_def pkg_threetwo_def)

end
